theory Spec2Isabelle
  imports Complex_Main
begin

section \<open>Strings and keyword scans\<close>

text \<open>
  A Python string whose characters the code looks at (the complaint description, the city)
  is the list of its Unicode code points, each paired with the code points that
  \<open>str.lower()\<close> puts in its place. The case tables belong to the Python runtime, not to
  the repository, so the lowercase images are part of the value: what is proved for every
  \<open>pystr\<close> holds whatever the tables are (U+212A KELVIN SIGN, for one, lowers to "k", so
  that a description can contain "smoke" in lower case without an ASCII "k").
\<close>

type_synonym codepoints = "nat list"

type_synonym pystr = "(nat \<times> codepoints) list"

definition chars :: "pystr \<Rightarrow> codepoints" where
  "chars s = map fst s"

text \<open>\<open>s.lower()\<close>.\<close>

definition lower :: "pystr \<Rightarrow> codepoints" where
  "lower s = concat (map snd s)"

text \<open>
  The code points of a string literal of the source (the keywords are ASCII). Strings that
  the code only compares with its literals, concatenates and stores (department keys,
  urgencies, escalation levels, messages) are modelled as \<open>string\<close>: any one-to-one
  encoding of Python strings keeps these operations.
\<close>

definition codes :: "string \<Rightarrow> codepoints" where
  "codes s = map of_char s"

fun starts_with :: "'a list \<Rightarrow> 'a list \<Rightarrow> bool" where
  "starts_with [] s = True"
| "starts_with (k # ks) [] = False"
| "starts_with (k # ks) (c # cs) = (k = c \<and> starts_with ks cs)"

text \<open>\<open>contains kw s\<close> is Python's \<open>kw in s\<close> on strings.\<close>

fun contains :: "'a list \<Rightarrow> 'a list \<Rightarrow> bool" where
  "contains kw [] = (kw = [])"
| "contains kw (c # cs) = (starts_with kw (c # cs) \<or> contains kw cs)"

text \<open>\<open>keyword in s\<close> for a literal keyword, and \<open>any(keyword in s for keyword in keywords)\<close>.\<close>

definition has :: "string \<Rightarrow> codepoints \<Rightarrow> bool" where
  "has keyword s = contains (codes keyword) s"

definition any_keyword :: "string list \<Rightarrow> codepoints \<Rightarrow> bool" where
  "any_keyword keywords s = list_ex (\<lambda>keyword. has keyword s) keywords"

text \<open>
  An ASCII text as a \<open>pystr\<close>, for the examples: on ASCII, \<open>str.lower()\<close> maps the letters
  A to Z to a to z and leaves every other character as it is.
\<close>

definition upper_to_lower :: "(char \<times> char) list" where
  "upper_to_lower = zip ''ABCDEFGHIJKLMNOPQRSTUVWXYZ'' ''abcdefghijklmnopqrstuvwxyz''"

definition lower_char :: "char \<Rightarrow> char" where
  "lower_char c = (case map_of upper_to_lower c of Some d \<Rightarrow> d | None \<Rightarrow> c)"

definition ascii :: "string \<Rightarrow> pystr" where
  "ascii s = map (\<lambda>c. (of_char c, [of_char (lower_char c)])) s"

section \<open>Floats and external-service outcomes\<close>

text \<open>
  A Python float as the code can receive it from \<open>json.loads\<close> followed by \<open>float()\<close>:
  a finite value, an infinity, or NaN. The code only compares floats with literals and
  assigns literals, so the finite values are modelled as reals.
\<close>

datatype pyfloat = Fin real | PInf | NInf | NaN

fun float_lt :: "pyfloat \<Rightarrow> real \<Rightarrow> bool" where
  "float_lt (Fin x) c = (x < c)"
| "float_lt NInf c = True"
| "float_lt PInf c = False"
| "float_lt NaN c = False"

fun float_gt :: "pyfloat \<Rightarrow> real \<Rightarrow> bool" where
  "float_gt (Fin x) c = (x > c)"
| "float_gt PInf c = True"
| "float_gt NInf c = False"
| "float_gt NaN c = False"

text \<open>
  \<open>min(c, x)\<close> and \<open>max(c, x)\<close> with a literal first argument: Python keeps the first
  argument unless the second is strictly smaller (larger).
\<close>

definition py_min :: "real \<Rightarrow> pyfloat \<Rightarrow> pyfloat" where
  "py_min c x = (if float_lt x c then x else Fin c)"

definition py_max :: "real \<Rightarrow> pyfloat \<Rightarrow> pyfloat" where
  "py_max c x = (if float_gt x c then x else Fin c)"

text \<open>
  The outcome of one call of the external text-completion service together with the
  stage's own extraction of a JSON object from the returned text (regular expressions,
  brace matching and \<open>json.loads\<close>): the call throws; the call returns and the extraction
  raises; or the extraction yields an object, whose fields the stage then reads. The
  strings are the exception messages. Which outcome a returned text leads to is decided by
  the extraction code and the JSON library, which are not modelled: \<open>Parsed\<close> and
  \<open>Unparseable\<close> speak of what the stage extracted, not of the text. (The object need not
  be the whole answer: the first regular expression of the SLA stage matches an inner
  object of an answer nested two levels deep; and an answer that is valid JSON with a brace
  inside a string can end in "Incomplete JSON".)
\<close>

datatype 'a llm = CallRaises string | Unparseable string | Parsed 'a

text \<open>
  The fields of an extracted object are JSON values of any type. A field that the code
  passes to \<open>float()\<close>: the key is absent, \<open>float()\<close> of the value is the given float, or
  \<open>float()\<close> raises on it (a non-numeric string, \<open>null\<close>, a list) with the given message.
\<close>

datatype float_field = FieldAbsent | FieldFloat pyfloat | FieldBad string

text \<open>\<open>float(parsed.get(key, default))\<close>.\<close>

definition float_of :: "pyfloat \<Rightarrow> float_field \<Rightarrow> string + pyfloat" where
  "float_of missing field =
     (case field of FieldAbsent \<Rightarrow> Inr missing | FieldFloat x \<Rightarrow> Inr x | FieldBad e \<Rightarrow> Inl e)"

text \<open>
  A field on which the code calls \<open>.lower()\<close>: the key is absent, the value is a string
  whose \<open>.lower()\<close> is the given string, or the value is not a string (\<open>null\<close>, a number, a
  list) and the call raises AttributeError with the given message.
\<close>

datatype text_field = TextAbsent | TextLower string | TextBad string

text \<open>\<open>parsed.get(key, default).lower()\<close>, for a lower-case default.\<close>

definition lower_of :: "string \<Rightarrow> text_field \<Rightarrow> string + string" where
  "lower_of missing field =
     (case field of TextAbsent \<Rightarrow> Inr missing | TextLower s \<Rightarrow> Inr s | TextBad e \<Rightarrow> Inl e)"

text \<open>Sequencing of a step that may raise.\<close>

definition then_do :: "string + 'a \<Rightarrow> ('a \<Rightarrow> string + 'b) \<Rightarrow> string + 'b" where
  "then_do r f = (case r of Inl e \<Rightarrow> Inl e | Inr x \<Rightarrow> f x)"

section \<open>Sentiment stage (\<open>agents/sentiment.py\<close>)\<close>

text \<open>
  The value of \<open>frustration_indicators\<close>, as the anger block uses it
  (\<open>if "critical_anger" not in v: v.append(...)\<close>): a JSON array, whose items are strings or
  other values; a string or an object in which \<open>"critical_anger" in v\<close> is true, so that
  nothing is appended; or any other value, on which the membership test or the \<open>append\<close>
  raises with the given message (a string or an object without "critical_anger", a number,
  \<open>null\<close>).
\<close>

datatype json_item = ItemStr string | ItemOther

datatype indicators = Items "json_item list" | HoldsCriticalAnger | NoAppend string

record sentiment_json =
  j_sentiment_score :: float_field
  j_emotion_level :: text_field
  j_frustration_indicators :: "indicators option"
  j_urgency_boost :: float_field
  j_priority_recommendation :: text_field

record sentiment_result =
  sentiment_score :: pyfloat
  emotion_level :: string
  frustration_indicators :: indicators
  urgency_boost :: pyfloat
  priority_recommendation :: string

definition neutral_sentiment :: sentiment_result where
  "neutral_sentiment =
     \<lparr>sentiment_score = Fin 0, emotion_level = ''calm'', frustration_indicators = Items [],
      urgency_boost = Fin 0, priority_recommendation = ''normal''\<rparr>"

definition valid_emotions :: "string list" where
  "valid_emotions = [''calm'', ''concerned'', ''frustrated'', ''angry'', ''urgent'']"

definition valid_priorities :: "string list" where
  "valid_priorities = [''normal'', ''high'', ''urgent'']"

text \<open>
  \<open>_analyze_sentiment_with_llm\<close>: the four conversions in the source's order; each of them
  can raise on a value of the wrong type.
\<close>

definition analyze_sentiment_with_llm :: "sentiment_json llm \<Rightarrow> string + sentiment_result" where
  "analyze_sentiment_with_llm response =
     (case response of
        CallRaises e \<Rightarrow> Inl e
      | Unparseable e \<Rightarrow> Inl e
      | Parsed parsed \<Rightarrow>
          then_do (float_of (Fin 0) (j_sentiment_score parsed)) (\<lambda>score0.
          then_do (lower_of ''calm'' (j_emotion_level parsed)) (\<lambda>emotion0.
          then_do (float_of (Fin 0) (j_urgency_boost parsed)) (\<lambda>boost0.
          then_do (lower_of ''normal'' (j_priority_recommendation parsed)) (\<lambda>priority0.
            Inr \<lparr>sentiment_score = py_max (- 1) (py_min 1 score0),
                 emotion_level = (if emotion0 \<in> set valid_emotions then emotion0 else ''calm''),
                 frustration_indicators =
                   (case j_frustration_indicators parsed of None \<Rightarrow> Items [] | Some v \<Rightarrow> v),
                 urgency_boost = py_max 0 (py_min 1 boost0),
                 priority_recommendation =
                   (if priority0 \<in> set valid_priorities then priority0 else ''normal'')\<rparr>)))))"

definition critical_anger :: "string list" where
  "critical_anger =
     [''very angry'', ''extremely angry'', ''furious'', ''outraged'', ''livid'',
      ''fed up'', ''had enough'', ''unacceptable'', ''disgusted'', ''appalled'']"

definition high_frustration :: "string list" where
  "high_frustration =
     [''frustrated'', ''annoyed'', ''irritated'', ''disappointed'', ''upset'',
      ''not happy'', ''dissatisfied'', ''complained before'', ''no response'',
      ''ignored'', ''neglected'', ''repeated complaint'']"

definition urgency_language :: "string list" where
  "urgency_language =
     [''immediately'', ''urgent'', ''asap'', ''right now'', ''emergency'',
      ''critical'', ''life threatening'', ''dangerous'', ''unsafe'']"

definition positive_indicators :: "string list" where
  "positive_indicators =
     [''thank you'', ''appreciate'', ''grateful'', ''please'', ''kindly'',
      ''respectfully'', ''hope'', ''would be great'']"

text \<open>
  \<open>if "critical_anger" not in result["frustration_indicators"]:
  result["frustration_indicators"].append("critical_anger_detected")\<close>.
\<close>

definition note_anger :: "indicators \<Rightarrow> string + indicators" where
  "note_anger v =
     (case v of
        Items xs \<Rightarrow>
          Inr (Items (if ItemStr ''critical_anger'' \<notin> set xs
                      then xs @ [ItemStr ''critical_anger_detected''] else xs))
      | HoldsCriticalAnger \<Rightarrow> Inr HoldsCriticalAnger
      | NoAppend e \<Rightarrow> Inl e)"

definition anger_overlay :: "codepoints \<Rightarrow> sentiment_result \<Rightarrow> string + sentiment_result" where
  "anger_overlay description_lower result =
     (if any_keyword critical_anger description_lower
      then then_do (note_anger (frustration_indicators result))
             (\<lambda>noted. Inr (result\<lparr>emotion_level := ''angry'',
                                   sentiment_score := py_min (- 0.8) (sentiment_score result),
                                   urgency_boost := py_max 0.7 (urgency_boost result),
                                   priority_recommendation := ''urgent'',
                                   frustration_indicators := noted\<rparr>))
      else Inr result)"

definition frustration_overlay :: "codepoints \<Rightarrow> sentiment_result \<Rightarrow> sentiment_result" where
  "frustration_overlay description_lower result =
     (if any_keyword high_frustration description_lower
      then result\<lparr>emotion_level :=
                    (if emotion_level result \<notin> set [''angry'', ''urgent'']
                     then ''frustrated'' else emotion_level result),
                  sentiment_score := py_min (- 0.5) (sentiment_score result),
                  urgency_boost := py_max 0.4 (urgency_boost result),
                  priority_recommendation :=
                    (if priority_recommendation result = ''normal''
                     then ''high'' else priority_recommendation result)\<rparr>
      else result)"

definition urgency_overlay :: "codepoints \<Rightarrow> sentiment_result \<Rightarrow> sentiment_result" where
  "urgency_overlay description_lower result =
     (if any_keyword urgency_language description_lower
      then result\<lparr>urgency_boost := py_max 0.5 (urgency_boost result),
                  priority_recommendation :=
                    (if priority_recommendation result \<noteq> ''urgent''
                     then ''high'' else priority_recommendation result)\<rparr>
      else result)"

definition positive_overlay :: "codepoints \<Rightarrow> sentiment_result \<Rightarrow> sentiment_result" where
  "positive_overlay description_lower result =
     (if any_keyword positive_indicators description_lower
      then (if float_lt (sentiment_score result) 0
            then result\<lparr>sentiment_score := py_max (- 0.3) (sentiment_score result)\<rparr>
            else result)
      else result)"

text \<open>
  \<open>_apply_keyword_boosts\<close>: the four keyword blocks of the source, in the source's order.
  Only the first can raise.
\<close>

definition apply_keyword_boosts :: "pystr \<Rightarrow> sentiment_result \<Rightarrow> string + sentiment_result" where
  "apply_keyword_boosts description result =
     (let description_lower = lower description
      in then_do (anger_overlay description_lower result)
           (\<lambda>angered. Inr (positive_overlay description_lower
                              (urgency_overlay description_lower
                                 (frustration_overlay description_lower angered)))))"

text \<open>
  \<open>SentimentAnalysisAgent.process\<close>: an empty description and every exception give the
  neutral result.
\<close>

definition sentiment_process :: "pystr \<Rightarrow> sentiment_json llm \<Rightarrow> sentiment_result" where
  "sentiment_process description response =
     (if description = [] then neutral_sentiment
      else (case then_do (analyze_sentiment_with_llm response) (apply_keyword_boosts description) of
              Inl e \<Rightarrow> neutral_sentiment
            | Inr result \<Rightarrow> result))"

text \<open>
  The answers on which the stage's own code does not raise while a description with an
  anger phrase is processed: every converted field has a usable type.
\<close>

definition sentiment_fields_usable :: "sentiment_json \<Rightarrow> bool" where
  "sentiment_fields_usable parsed =
     ((case j_sentiment_score parsed of FieldBad e \<Rightarrow> False | _ \<Rightarrow> True) \<and>
      (case j_emotion_level parsed of TextBad e \<Rightarrow> False | _ \<Rightarrow> True) \<and>
      (case j_urgency_boost parsed of FieldBad e \<Rightarrow> False | _ \<Rightarrow> True) \<and>
      (case j_priority_recommendation parsed of TextBad e \<Rightarrow> False | _ \<Rightarrow> True) \<and>
      (case j_frustration_indicators parsed of Some (NoAppend e) \<Rightarrow> False | _ \<Rightarrow> True))"

text \<open>Reading a float against a bound: NaN satisfies neither.\<close>

fun float_le :: "pyfloat \<Rightarrow> real \<Rightarrow> bool" where
  "float_le (Fin x) c = (x \<le> c)"
| "float_le NInf c = True"
| "float_le PInf c = False"
| "float_le NaN c = False"

fun float_ge :: "pyfloat \<Rightarrow> real \<Rightarrow> bool" where
  "float_ge (Fin x) c = (x \<ge> c)"
| "float_ge PInf c = True"
| "float_ge NInf c = False"
| "float_ge NaN c = False"

text \<open>What the anger block establishes and the two blocks after it keep.\<close>

definition angry_inv :: "sentiment_result \<Rightarrow> bool" where
  "angry_inv r =
     (emotion_level r = ''angry'' \<and> priority_recommendation r = ''urgent'' \<and>
      float_ge (urgency_boost r) 0.7 \<and> float_le (sentiment_score r) (- 0.8) \<and>
      float_ge (sentiment_score r) (- 1))"

section \<open>SLA stage (\<open>agents/sla_assignment.py\<close>)\<close>

record sla_json =
  j_sla_hours :: float_field

record sla_result =
  sla_deadline :: real
  sla_hours :: real

text \<open>\<open>if x > hi: x = hi elif x < lo: x = lo\<close> and \<open>if x > hi: x = hi\<close>.\<close>

definition band :: "real \<Rightarrow> real \<Rightarrow> pyfloat \<Rightarrow> pyfloat" where
  "band lo hi x = (if float_gt x hi then Fin hi else if float_lt x lo then Fin lo else x)"

definition cap :: "real \<Rightarrow> pyfloat \<Rightarrow> pyfloat" where
  "cap hi x = (if float_gt x hi then Fin hi else x)"

definition default_sla :: "string \<Rightarrow> real" where
  "default_sla urgency =
     (if urgency = ''urgent'' then 0.5 else if urgency = ''high'' then 6
      else if urgency = ''medium'' then 72 else if urgency = ''low'' then 168 else 72)"

definition sla_fire_keywords :: "string list" where
  "sla_fire_keywords =
     [''fire'', ''burning'', ''blaze'', ''smoke'', ''flames'', ''on fire'', ''caught fire'']"

definition sla_medical_keywords :: "string list" where
  "sla_medical_keywords =
     [''medical emergency'', ''heart attack'', ''stroke'', ''unconscious'', ''not breathing'',
      ''ambulance'']"

definition sla_accident_keywords :: "string list" where
  "sla_accident_keywords =
     [''accident'', ''crash'', ''collision'', ''injured'', ''hurt'', ''bleeding'', ''trapped'']"

definition sla_gas_keywords :: "string list" where
  "sla_gas_keywords =
     [''gas leak'', ''gas smell'', ''lpg leak'', ''explosion risk'', ''gas emergency'']"

definition sla_collapse_keywords :: "string list" where
  "sla_collapse_keywords =
     [''building collapse'', ''wall collapse'', ''structure falling'', ''unsafe building'',
      ''trapped'']"

definition sla_crime_keywords :: "string list" where
  "sla_crime_keywords =
     [''robbery'', ''assault'', ''attack'', ''violence'', ''threat'', ''danger'',
      ''crime in progress'']"

definition sla_electrical_keywords :: "string list" where
  "sla_electrical_keywords =
     [''electrical fire'', ''power line down'', ''sparking wires'', ''live wire'',
      ''electrical hazard'']"

definition police_departments :: "string list" where
  "police_departments = [''maharashtra_police'', ''mumbai_police'']"

definition city_departments :: "string list" where
  "city_departments = [''bmc'', ''pune_municipal'', ''municipal'']"

text \<open>One keyword block of the source: \<open>if cond: (clamp into the band)\<close>.\<close>

definition band_if :: "bool \<Rightarrow> real \<Rightarrow> real \<Rightarrow> pyfloat \<Rightarrow> pyfloat" where
  "band_if cond lo hi x = (if cond then band lo hi x else x)"

text \<open>
  The urgent branch: fire, medical, accident, gas, collapse, crime and electrical blocks
  in the source's order (the innermost application runs first), then the 2-hour cap.
\<close>

definition urgent_sla :: "codepoints \<Rightarrow> string \<Rightarrow> pyfloat \<Rightarrow> pyfloat" where
  "urgent_sla description_lower department h =
     cap 2
       (band_if (any_keyword sla_electrical_keywords description_lower \<and>
                 department \<in> set [''fire'', ''mseb'']) 0.25 0.5
       (band_if (any_keyword sla_crime_keywords description_lower \<and>
                 department \<in> set police_departments) 0.25 0.5
       (band_if (any_keyword sla_collapse_keywords description_lower) 0.5 1
       (band_if (any_keyword sla_gas_keywords description_lower) 0.25 0.5
       (band_if (any_keyword sla_accident_keywords description_lower \<and>
                 department \<in> set police_departments) 0.5 1
       (band_if (any_keyword sla_medical_keywords description_lower \<or>
                 department = ''maharashtra_health'') 0.25 0.5
       (band_if (any_keyword sla_fire_keywords description_lower \<or>
                 department = ''fire'') 0.25 0.5 h)))))))"

definition sla_health_risk_keywords :: "string list" where
  "sla_health_risk_keywords =
     [''contamination'', ''disease outbreak'', ''unsafe water'', ''food poisoning'',
      ''health risk'']"

definition sla_infrastructure_keywords :: "string list" where
  "sla_infrastructure_keywords =
     [''bridge collapse'', ''major road damage'', ''building structural'',
      ''infrastructure failure'']"

definition high_sla :: "codepoints \<Rightarrow> string \<Rightarrow> pyfloat \<Rightarrow> pyfloat" where
  "high_sla description_lower department h =
     cap 12
       (band_if ((has ''water contamination'' description_lower \<or>
                  has ''contaminated water'' description_lower) \<and>
                 department \<in> set city_departments) 2 6
       (band_if ((has ''power outage'' description_lower \<or>
                  has ''power cut'' description_lower) \<and>
                 department = ''mseb'') 2 8
       (band_if (any_keyword sla_infrastructure_keywords description_lower \<and>
                 department \<in> set [''maharashtra_pwd'', ''bmc'', ''pune_municipal'',
                                      ''municipal'']) 4 12
       (band_if (any_keyword sla_health_risk_keywords description_lower) 2 6 h))))"

definition medium_sla :: "codepoints \<Rightarrow> string \<Rightarrow> pyfloat \<Rightarrow> pyfloat" where
  "medium_sla description_lower department h =
     band 24 168
       (band_if ((has ''street light'' description_lower \<or>
                  has ''light'' description_lower) \<and>
                 department \<in> set city_departments) 48 120
       (band_if ((has ''drainage'' description_lower \<or>
                  has ''drain'' description_lower) \<and>
                 department \<in> set city_departments) 48 96
       (band_if ((has ''electricity'' description_lower \<or>
                  has ''power'' description_lower) \<and>
                 department = ''mseb'') 24 72
       (band_if ((has ''water'' description_lower \<and>
                  has ''supply'' description_lower) \<and>
                 department \<in> set city_departments) 24 72
       (band_if ((has ''road'' description_lower \<or>
                  has ''pothole'' description_lower) \<and>
                 department \<in> set [''bmc'', ''pune_municipal'', ''maharashtra_pwd'',
                                      ''municipal'']) 48 120
       (band_if ((has ''garbage'' description_lower \<or>
                  has ''waste'' description_lower) \<and>
                 department \<in> set city_departments) 24 72 h))))))"

definition sla_cosmetic_keywords :: "string list" where
  "sla_cosmetic_keywords = [''paint'', ''aesthetic'', ''cosmetic'', ''minor repair'']"

definition low_sla :: "codepoints \<Rightarrow> string \<Rightarrow> pyfloat \<Rightarrow> pyfloat" where
  "low_sla description_lower department h =
     band 168 336
       (band_if (any_keyword sla_cosmetic_keywords description_lower) 168 336 h)"

text \<open>The final validation: two independent \<open>if\<close>s.\<close>

definition final_validation :: "pyfloat \<Rightarrow> pyfloat" where
  "final_validation h0 =
     (let h1 = (if float_lt h0 0.25 then Fin 0.25 else h0)
      in if float_gt h1 336 then Fin 336 else h1)"

definition clamp_sla :: "string \<Rightarrow> pystr \<Rightarrow> string \<Rightarrow> pyfloat \<Rightarrow> pyfloat" where
  "clamp_sla urgency description department h =
     (let description_lower = lower description
      in final_validation
           (if urgency = ''urgent'' then urgent_sla description_lower department h
            else if urgency = ''high'' then high_sla description_lower department h
            else if urgency = ''medium'' then medium_sla description_lower department h
            else if urgency = ''low'' then low_sla description_lower department h
            else h))"

text \<open>
  \<open>deadline = now + timedelta(hours=sla_hours)\<close> and the result dictionary.
  \<open>timedelta(hours=h)\<close> raises on NaN, on an infinity and beyond 999999999 days; otherwise
  the duration is \<open>h\<close> hours rounded to a whole number of microseconds. The rounding is
  done by the Python runtime in floating point: \<open>timedelta h\<close>, the number of hours of the
  duration made from \<open>h\<close> hours, is a parameter. \<open>now\<close> is the reading of
  \<open>datetime.utcnow()\<close>, in hours. The result holds the clamped \<open>sla_hours\<close> itself.
\<close>

definition deadline_result :: "(real \<Rightarrow> real) \<Rightarrow> real \<Rightarrow> pyfloat \<Rightarrow> string + sla_result" where
  "deadline_result timedelta now h =
     (case h of
        Fin x \<Rightarrow> (if \<bar>x\<bar> > 24 * 999999999 then Inl ''days out of range''
                  else Inr \<lparr>sla_deadline = now + timedelta x, sla_hours = x\<rparr>)
      | NaN \<Rightarrow> Inl ''cannot convert float NaN to integer''
      | PInf \<Rightarrow> Inl ''cannot convert float infinity to integer''
      | NInf \<Rightarrow> Inl ''cannot convert float infinity to integer'')"

text \<open>
  \<open>_assign_sla_with_llm\<close>. The category and the location only go into the prompt.
\<close>

definition assign_sla_with_llm ::
  "(real \<Rightarrow> real) \<Rightarrow> string \<Rightarrow> string \<Rightarrow> pystr \<Rightarrow> string \<Rightarrow> sla_json llm \<Rightarrow> real \<Rightarrow>
   string + sla_result" where
  "assign_sla_with_llm timedelta urgency category description department response now =
     (case response of
        CallRaises e \<Rightarrow> Inl e
      | Unparseable e \<Rightarrow> Inl e
      | Parsed parsed \<Rightarrow>
          then_do (float_of (Fin (default_sla urgency)) (j_sla_hours parsed))
            (\<lambda>sla_hours_raw.
               deadline_result timedelta now
                 (clamp_sla urgency description department sla_hours_raw)))"

text \<open>\<open>SLAAssignmentAgent.process\<close>: every exception is re-raised as a RuntimeError.\<close>

definition sla_process ::
  "(real \<Rightarrow> real) \<Rightarrow> string \<Rightarrow> string \<Rightarrow> pystr \<Rightarrow> string \<Rightarrow> sla_json llm \<Rightarrow> real \<Rightarrow>
   string + sla_result" where
  "sla_process timedelta urgency category description department response now =
     (case assign_sla_with_llm timedelta urgency category description department response now of
        Inl e \<Rightarrow> Inl (''SLA assignment agent failed: '' @ e)
      | Inr result \<Rightarrow> Inr result)"

text \<open>
  The outcomes on which the stage's own code raises although the call returned: the
  extraction raises, \<open>float()\<close> rejects \<open>sla_hours\<close>, or \<open>sla_hours\<close> is NaN.
\<close>

definition sla_rejected :: "sla_json llm \<Rightarrow> bool" where
  "sla_rejected response =
     (case response of
        CallRaises e \<Rightarrow> False
      | Unparseable e \<Rightarrow> True
      | Parsed parsed \<Rightarrow>
          (case j_sla_hours parsed of
             FieldAbsent \<Rightarrow> False
           | FieldFloat x \<Rightarrow> x = NaN
           | FieldBad e \<Rightarrow> True))"

definition call_throws :: "'a llm \<Rightarrow> bool" where
  "call_throws response = (case response of CallRaises e \<Rightarrow> True | _ \<Rightarrow> False)"

text \<open>
  A conversion that is accurate to the microsecond on the stage's range of hours
  (Python's rounds the exact product to the nearest microsecond, up to the error of one
  floating-point multiplication), and one such conversion for the examples: rounding to
  the nearest microsecond, which is what Python's does at the inputs of the examples.
\<close>

definition microsecond :: real where
  "microsecond = 1 / 3600000000"

definition accurate_timedelta :: "(real \<Rightarrow> real) \<Rightarrow> bool" where
  "accurate_timedelta timedelta =
     (\<forall>h. 0.25 \<le> h \<and> h \<le> 336 \<longrightarrow> \<bar>timedelta h - h\<bar> \<le> microsecond)"

definition nearest_microsecond :: "real \<Rightarrow> real" where
  "nearest_microsecond h = real_of_int (round (h * 3600000000)) / 3600000000"

section \<open>Classification stage (\<open>agents/classification.py\<close>)\<close>

text \<open>
  The \<open>city\<close> entry of the location dictionary: absent (also for an empty dictionary),
  \<open>None\<close> (the controller passes \<open>Location.dict()\<close>, whose optional fields are \<open>None\<close>
  when not given), or a string. \<open>provided_location.get("city", "").lower()\<close> raises
  AttributeError on \<open>None\<close>.
\<close>

datatype city_field = CityAbsent | CityNull | City pystr

definition city_lower :: "city_field \<Rightarrow> string + codepoints" where
  "city_lower loc =
     (case loc of
        CityAbsent \<Rightarrow> Inr []
      | CityNull \<Rightarrow> Inl ''NoneType object has no attribute lower''
      | City c \<Rightarrow> Inr (lower c))"

definition fire_keywords :: "string list" where
  "fire_keywords =
     [''fire'', ''burning'', ''blaze'', ''smoke'', ''flames'', ''on fire'', ''caught fire'',
      ''fire broke out'', ''fire incident'', ''building on fire'', ''house on fire'']"

definition medical_keywords :: "string list" where
  "medical_keywords =
     [''medical emergency'', ''heart attack'', ''stroke'', ''unconscious'', ''not breathing'',
      ''ambulance needed'', ''ambulance'', ''emergency medical'']"

definition accident_keywords :: "string list" where
  "accident_keywords =
     [''accident'', ''crash'', ''collision'', ''injured'', ''hurt'', ''bleeding'', ''trapped'',
      ''road accident'', ''car accident'']"

definition gas_keywords :: "string list" where
  "gas_keywords =
     [''gas leak'', ''gas smell'', ''lpg leak'', ''explosion risk'', ''gas emergency'', ''gas'',
      ''lpg'', ''cng leak'']"

definition police_keywords :: "string list" where
  "police_keywords =
     [''police'', ''cop'', ''constable'', ''officer'', ''law enforcement'', ''police station'',
      ''police help'', ''police complaint'', ''file fir'', ''fir'', ''first information report'',
      ''police intervention'', ''police action'', ''police report'', ''police case'',
      ''police investigation'', ''police department'',
      ''robbery'', ''assault'', ''attack'', ''violence'', ''threat'', ''crime'', ''theft'',
      ''fraud'', ''stolen'', ''robbed'', ''mugging'', ''burglary'', ''break-in'', ''vandalism'',
      ''harassment'', ''molestation'', ''domestic violence'', ''abuse'', ''cybercrime'', ''scam'',
      ''cheating'', ''illegal'', ''criminal'', ''criminal activity'', ''law violation'',
      ''illegal activity'',
      ''security issue'', ''safety concern'', ''unsafe'', ''dangerous situation'',
      ''threatening'', ''intimidation'', ''extortion'', ''blackmail'', ''kidnapping'',
      ''missing person'',
      ''traffic violation'', ''rash driving'', ''drunk driving'', ''hit and run'',
      ''traffic police'',
      ''legal action'', ''law and order'', ''public order'', ''disturbance'', ''riot'',
      ''commotion'']"

definition police_for :: "codepoints \<Rightarrow> string" where
  "police_for city = (if has ''mumbai'' city then ''mumbai_police'' else ''maharashtra_police'')"

definition municipal_for :: "codepoints \<Rightarrow> string" where
  "municipal_for city =
     (if has ''mumbai'' city then ''bmc''
      else if has ''pune'' city then ''pune_municipal''
      else if has ''nagpur'' city then ''nagpur_municipal''
      else ''municipal'')"

text \<open>
  The police branches read the city and, when it is empty, look for "mumbai" in the
  description.
\<close>

definition police_city :: "codepoints \<Rightarrow> city_field \<Rightarrow> string + codepoints" where
  "police_city description_lower loc =
     then_do (city_lower loc)
       (\<lambda>city. Inr (if city = [] \<and> has ''mumbai'' description_lower
                     then codes ''mumbai'' else city))"

text \<open>
  The keyword routing that precedes the service call: the \<open>if\<close>/\<open>elif\<close> chain of the
  source in its order. The result is (department_key, urgency, category), each \<open>None\<close>
  where the chain leaves it unset.
\<close>

definition keyword_routing ::
  "codepoints \<Rightarrow> city_field \<Rightarrow> string + (string option \<times> string option \<times> string option)" where
  "keyword_routing dl loc =
     (if any_keyword fire_keywords dl
      then Inr (Some ''fire'', Some ''urgent'', Some ''safety'')
      else if any_keyword medical_keywords dl
      then Inr (Some ''maharashtra_health'', Some ''urgent'', Some ''health'')
      else if any_keyword accident_keywords dl
      then then_do (city_lower loc)
             (\<lambda>city. Inr (Some (police_for city), Some ''urgent'', Some ''safety''))
      else if any_keyword gas_keywords dl
      then Inr (Some ''fire'', Some ''urgent'', Some ''safety'')
      else if any_keyword police_keywords dl
      then then_do (police_city dl loc)
             (\<lambda>city. Inr (Some (police_for city),
                           Some (if has ''in progress'' dl \<or> has ''happening'' dl \<or>
                                    has ''urgent'' dl
                                 then ''urgent'' else ''high''),
                           Some ''safety''))
      else if any_keyword [''electricity'', ''power'', ''meter'', ''electric'', ''power cut'',
                           ''load shedding'', ''blackout'', ''outage'', ''voltage'',
                           ''transformer''] dl
      then Inr (Some ''mseb'', None, Some ''utilities'')
      else if any_keyword [''garbage'', ''waste'', ''sewage'', ''trash'', ''dumping'',
                           ''garbage collection'', ''solid waste'', ''refuse''] dl
      then then_do (city_lower loc)
             (\<lambda>city. Inr (Some (municipal_for city), None, Some ''sanitation''))
      else if any_keyword [''water supply'', ''water shortage'', ''water pressure'', ''no water'',
                           ''water problem'', ''water issue'', ''water cut'',
                           ''water connection''] dl
      then then_do (city_lower loc)
             (\<lambda>city. Inr (Some (municipal_for city), None, Some ''utilities''))
      else if any_keyword [''road'', ''pothole'', ''bridge'', ''street'', ''highway'', ''pavement'',
                           ''footpath'', ''sidewalk'', ''road repair'', ''road condition''] dl
      then then_do (city_lower loc)
             (\<lambda>city. Inr (Some (municipal_for city), None, Some ''infrastructure''))
      else if any_keyword [''bus'', ''transport'', ''st bus'', ''state transport'', ''msrtc'',
                           ''public transport''] dl
      then Inr (Some ''msrtc'', None, Some ''transport'')
      else if any_keyword [''train'', ''railway'', ''railway station'', ''rail'', ''locomotive'',
                           ''railway ticket''] dl
      then Inr (Some ''central_railways'', None, Some ''transport'')
      else if any_keyword [''school'', ''education'', ''college'', ''teacher'', ''student'',
                           ''tuition'', ''scholarship'', ''exam''] dl
      then Inr (Some ''maharashtra_education'', None, Some ''education'')
      else if any_keyword [''hospital'', ''health'', ''clinic'', ''doctor'', ''medicine'',
                           ''treatment'', ''healthcare'', ''medical''] dl
      then Inr (Some ''maharashtra_health'', None, Some ''health'')
      else if any_keyword [''pollution'', ''environment'', ''air quality'', ''noise'', ''toxic'',
                           ''contamination'', ''emission''] dl
      then Inr (Some ''maharashtra_environment'', None, Some ''environment'')
      else if any_keyword [''post'', ''mail'', ''postal'', ''post office'', ''parcel'',
                           ''letter''] dl
      then Inr (Some ''central_post'', None, Some ''other'')
      else if any_keyword [''internet'', ''telecom'', ''mobile'', ''phone'', ''network'',
                           ''signal'', ''data'', ''broadband''] dl
      then Inr (Some ''central_telecom'', None, Some ''utilities'')
      else if any_keyword [''drainage'', ''sewer'', ''sewerage'', ''drain'', ''flooding'',
                           ''water logging''] dl
      then then_do (city_lower loc)
             (\<lambda>city. Inr (Some (municipal_for city), None, Some ''infrastructure''))
      else if any_keyword [''street light'', ''streetlight'', ''lamp post'', ''lighting'',
                           ''dark street''] dl
      then then_do (city_lower loc)
             (\<lambda>city. Inr (Some (municipal_for city), None, Some ''infrastructure''))
      else Inr (None, None, None))"

text \<open>
  The fields of the extracted object that the stage reads. Urgency and category are only
  tested for membership in lists of literals and the department name is only stored: a
  value of these that is not a string (a number, \<open>null\<close>) fails every such test exactly as
  an unknown string does, and is represented by one. The department is also looked up in
  the dictionary \<open>INDIAN_DEPARTMENTS\<close>: a number or \<open>null\<close> is a key the dictionary does
  not have, like an unknown string, while a list or an object raises TypeError (unhashable
  type). The \<open>location\<close> entry is merged with
  \<open>extracted_location.update(parsed["location"])\<close> when it is truthy: it is empty (absent,
  \<open>null\<close>, an empty value), or a dictionary that \<open>update\<close> accepts, or a value on which
  \<open>update\<close> raises with the given message (a non-empty string, a number).
\<close>

datatype key_value = Key string | Unhashable

datatype location_field = LocationEmpty | LocationEntries | LocationBad string

record classification_json =
  cj_urgency :: "string option"
  cj_category :: "string option"
  cj_department :: "key_value option"
  cj_department_name :: "string option"
  cj_location :: location_field

record classification_result =
  cr_urgency :: string
  cr_structured_category :: string
  cr_department :: string
  cr_department_name :: string

definition valid_urgencies :: "string list" where
  "valid_urgencies = [''urgent'', ''high'', ''medium'', ''low'']"

definition valid_categories :: "string list" where
  "valid_categories =
     [''infrastructure'', ''utilities'', ''sanitation'', ''transport'', ''health'',
      ''education'', ''safety'', ''environment'', ''governance'', ''other'']"

text \<open>\<open>INDIAN_DEPARTMENTS\<close> (\<open>config/india_data.py\<close>): department key and display name.\<close>

definition indian_departments :: "(string \<times> string) list" where
  "indian_departments =
     [(''bmc'', ''Brihanmumbai Municipal Corporation (BMC)''),
      (''pune_municipal'', ''Pune Municipal Corporation (PMC)''),
      (''nagpur_municipal'', ''Nagpur Municipal Corporation (NMC)''),
      (''municipal'', ''Municipal Corporation''),
      (''maharashtra_police'', ''Maharashtra Police''),
      (''mumbai_police'', ''Mumbai Police''),
      (''fire'', ''Maharashtra Fire Department''),
      (''maharashtra_pwd'', ''Maharashtra Public Works Department (PWD)''),
      (''msrtc'', ''Maharashtra State Road Transport Corporation (MSRTC)''),
      (''maharashtra_health'', ''Maharashtra Health Department''),
      (''maharashtra_education'', ''Maharashtra Education Department''),
      (''central_railways'', ''Indian Railways''),
      (''central_post'', ''India Post''),
      (''mseb'', ''Maharashtra State Electricity Board (MSEB)''),
      (''central_telecom'', ''Telecom Regulatory Authority''),
      (''maharashtra_environment'', ''Maharashtra Environment Department''),
      (''rural_development'', ''Rural Development Department'')]"

definition department_name_of :: "string \<Rightarrow> string" where
  "department_name_of key = (case map_of indian_departments key of Some n \<Rightarrow> n | None \<Rightarrow> [])"

definition validate_urgency :: "string \<Rightarrow> string" where
  "validate_urgency u = (if u \<in> set valid_urgencies then u else ''medium'')"

definition validate_category :: "string \<Rightarrow> string" where
  "validate_category c = (if c \<in> set valid_categories then c else ''other'')"

text \<open>
  \<open>if department_key not in INDIAN_DEPARTMENTS: department_key = "municipal"\<close>.
\<close>

definition validate_department :: "key_value \<Rightarrow> string + string" where
  "validate_department d =
     (case d of
        Unhashable \<Rightarrow> Inl ''unhashable type''
      | Key k \<Rightarrow> Inr (if k \<in> fst ` set indian_departments then k else ''municipal''))"

text \<open>
  \<open>if parsed.get("location"): extracted_location.update(parsed["location"])\<close>. The merged
  location only reaches prompts and the stored row's location column and is left out.
\<close>

definition merge_location :: "location_field \<Rightarrow> string + unit" where
  "merge_location l = (case l of LocationBad e \<Rightarrow> Inl e | _ \<Rightarrow> Inr ())"

text \<open>The answers whose location entry the merge accepts.\<close>

definition location_mergeable :: "classification_json \<Rightarrow> bool" where
  "location_mergeable parsed = (case cj_location parsed of LocationBad e \<Rightarrow> False | _ \<Rightarrow> True)"

text \<open>
  The block for \<open>department_key is None\<close>: the service's department, with a second keyword
  check when it is "municipal". The assignments \<open>category = category or ...\<close> and
  \<open>urgency = urgency or ...\<close> of that block change nothing, since both were validated to
  non-empty strings before.
\<close>

definition llm_department ::
  "codepoints \<Rightarrow> city_field \<Rightarrow> classification_json \<Rightarrow> string + key_value" where
  "llm_department dl loc parsed =
     (let department_key = (case cj_department parsed of None \<Rightarrow> Key ''municipal'' | Some d \<Rightarrow> d)
      in if department_key = Key ''municipal''
         then (if any_keyword police_keywords dl
               then then_do (police_city dl loc) (\<lambda>city. Inr (Key (police_for city)))
               else if any_keyword [''electricity'', ''power'', ''meter'', ''electric'',
                                    ''power cut''] dl
               then Inr (Key ''mseb'')
               else if any_keyword [''bus'', ''transport'', ''st bus'', ''state transport''] dl
               then Inr (Key ''msrtc'')
               else if any_keyword [''train'', ''railway'', ''railway station''] dl
               then Inr (Key ''central_railways'')
               else if any_keyword [''school'', ''education'', ''college'', ''teacher''] dl
               then Inr (Key ''maharashtra_education'')
               else if any_keyword [''hospital'', ''health'', ''clinic'', ''doctor''] dl
               then Inr (Key ''maharashtra_health'')
               else if any_keyword [''pollution'', ''environment'', ''air quality''] dl
               then Inr (Key ''maharashtra_environment'')
               else Inr department_key)
         else Inr department_key)"

text \<open>The police safety check; the triple is (department_key, urgency, category).\<close>

definition police_safety_check ::
  "codepoints \<Rightarrow> city_field \<Rightarrow> key_value \<times> string \<times> string \<Rightarrow>
   string + (key_value \<times> string \<times> string)" where
  "police_safety_check dl loc duc =
     (case duc of (department_key, urgency, category) \<Rightarrow>
        if any_keyword police_keywords dl \<and>
           department_key \<in> set [Key ''municipal'', Key ''bmc'', Key ''pune_municipal'',
                                   Key ''nagpur_municipal'']
        then then_do (police_city dl loc)
               (\<lambda>city. Inr (Key (police_for city),
                             (if urgency \<notin> set [''urgent'', ''high''] then ''high'' else urgency),
                             ''safety''))
        else Inr duc)"

text \<open>The final check of a municipal routing against the city.\<close>

definition refine_municipal :: "codepoints \<Rightarrow> city_field \<Rightarrow> key_value \<Rightarrow> string + key_value" where
  "refine_municipal dl loc department_key =
     (if department_key = Key ''municipal''
      then then_do (city_lower loc)
             (\<lambda>city. Inr (Key (municipal_for
                (if city = []
                 then (if has ''mumbai'' dl then codes ''mumbai''
                       else if has ''pune'' dl then codes ''pune''
                       else if has ''nagpur'' dl then codes ''nagpur'' else city)
                 else city))))
      else Inr department_key)"

text \<open>
  \<open>_classify_with_llm\<close>: the keyword routing, the call and the extraction, the
  validations, the three department checks, the dictionary lookup and the merge of the
  location, in the source's order. The metadata of the result is left out.
\<close>

definition classify_with_llm ::
  "pystr \<Rightarrow> city_field \<Rightarrow> classification_json llm \<Rightarrow> string + classification_result" where
  "classify_with_llm description provided_location response =
     then_do (keyword_routing (lower description) provided_location)
       (\<lambda>kw. case kw of (kw_department, kw_urgency, kw_category) \<Rightarrow>
          (case response of
             CallRaises e \<Rightarrow> Inl e
           | Unparseable e \<Rightarrow> Inl (''Failed to parse JSON from classification response: '' @ e)
           | Parsed parsed \<Rightarrow>
               then_do (case kw_department of
                          None \<Rightarrow> llm_department (lower description) provided_location parsed
                        | Some d \<Rightarrow> Inr (Key d))
                 (\<lambda>d1. then_do
                    (police_safety_check (lower description) provided_location
                       (d1,
                        validate_urgency
                          (case kw_urgency of
                             None \<Rightarrow> (case cj_urgency parsed of None \<Rightarrow> ''medium'' | Some u \<Rightarrow> u)
                           | Some u \<Rightarrow> u),
                        validate_category
                          (case kw_category of
                             None \<Rightarrow> (case cj_category parsed of None \<Rightarrow> ''other'' | Some c \<Rightarrow> c)
                           | Some c \<Rightarrow> c)))
                    (\<lambda>duc. case duc of (d2, urgency, category) \<Rightarrow>
                       then_do (refine_municipal (lower description) provided_location d2)
                         (\<lambda>d3. then_do (validate_department d3)
                            (\<lambda>department_key. then_do (merge_location (cj_location parsed))
                               (\<lambda>merged. Inr \<lparr>cr_urgency = urgency,
                                     cr_structured_category = category,
                                     cr_department = department_key,
                                     cr_department_name =
                                       (case cj_department_name parsed of
                                          None \<Rightarrow> department_name_of department_key
                                        | Some n \<Rightarrow> n)\<rparr>)))))))"

text \<open>\<open>ClassificationAgent.process\<close>.\<close>

definition classification_process ::
  "pystr \<Rightarrow> city_field \<Rightarrow> classification_json llm \<Rightarrow> string + classification_result" where
  "classification_process description provided_location response =
     (if description = [] then Inl ''Complaint description is required''
      else (case classify_with_llm description provided_location response of
              Inl e \<Rightarrow> Inl (''Classification agent failed: '' @ e)
            | Inr result \<Rightarrow> Inr result))"

section \<open>Fallback agents (\<open>complaint_understanding.py\<close>, \<open>department_routing.py\<close>)\<close>

record understanding_json =
  uj_category :: "string option"
  uj_urgency :: "string option"
  uj_location :: location_field

definition understanding_process ::
  "pystr \<Rightarrow> understanding_json llm \<Rightarrow> string + (string \<times> string)" where
  "understanding_process description response =
     (if description = [] then Inl ''Complaint description is required''
      else (case response of
              CallRaises e \<Rightarrow> Inl (''Complaint understanding agent failed: '' @ e)
            | Unparseable e \<Rightarrow> Inl (''Complaint understanding agent failed: '' @ e)
            | Parsed parsed \<Rightarrow>
                (case merge_location (uj_location parsed) of
                   Inl e \<Rightarrow> Inl (''Complaint understanding agent failed: '' @ e)
                 | Inr merged \<Rightarrow>
                     Inr (validate_category
                            (case uj_category parsed of None \<Rightarrow> ''other'' | Some c \<Rightarrow> c),
                          validate_urgency
                            (case uj_urgency parsed of None \<Rightarrow> ''medium'' | Some u \<Rightarrow> u)))))"

record routing_json =
  rj_department :: "key_value option"
  rj_department_name :: "string option"

definition routing_process :: "routing_json llm \<Rightarrow> string + (string \<times> string)" where
  "routing_process response =
     (case response of
        CallRaises e \<Rightarrow> Inl (''Department routing agent failed: '' @ e)
      | Unparseable e \<Rightarrow> Inl (''Department routing agent failed: '' @ e)
      | Parsed parsed \<Rightarrow>
          (case validate_department
                  (case rj_department parsed of None \<Rightarrow> Key ''municipal'' | Some d \<Rightarrow> d) of
             Inl e \<Rightarrow> Inl (''Department routing agent failed: '' @ e)
           | Inr department_key \<Rightarrow>
               (let department_name =
                      (case rj_department_name parsed of None \<Rightarrow> [] | Some n \<Rightarrow> n)
                in Inr (department_key,
                        if department_name = [] then department_name_of department_key
                        else department_name))))"

section \<open>The store (\<open>models/database.py\<close>)\<close>

text \<open>
  A complaint row. Timestamps are real numbers of hours. The sentiment columns are
  optional (\<open>None\<close> when the row is written without them); \<open>c_department_name\<close>,
  \<open>c_sla_hours\<close> and \<open>c_workflow_errors\<close> are entries of the row's \<open>agent_metadata\<close>.
  The description is stored as it was given (its code points).
\<close>

record complaint =
  c_id :: string
  c_description :: codepoints
  c_structured_category :: string
  c_location :: city_field
  c_responsible_department :: string
  c_status :: string
  c_urgency :: string
  c_sla_deadline :: "real option"
  c_escalation_level :: string
  c_citizen_name :: "string option"
  c_citizen_email :: "string option"
  c_citizen_phone :: "string option"
  c_sentiment_score :: "pyfloat option"
  c_emotion_level :: "string option"
  c_urgency_boost :: "pyfloat option"
  c_department_name :: string
  c_sla_hours :: real
  c_workflow_errors :: "string list"
  c_created_at :: "real option"
  c_updated_at :: "real option"

text \<open>
  The reason of an escalation: the service's text, or the default
  \<open>f"Complaint overdue by {hours_overdue:.1f} hours. Urgency: {urgency}."\<close>, kept as its
  two arguments. The id of an escalation record, \<open>f"esc_{complaint_id}_{int(time.time())}"\<close>,
  is kept as its two parts \<open>e_complaint_id\<close> and \<open>e_stamp\<close>.
\<close>

datatype reason = GivenReason string | DefaultReason real string

record escalation =
  e_complaint_id :: string
  e_stamp :: int
  e_escalation_level :: string
  e_reason :: reason
  e_escalated_to :: string

text \<open>
  The two tables: complaints keyed by id (the primary key), with the order in which a scan
  returns them, and the append-only escalations.
\<close>

record store =
  rows :: "string \<rightharpoonup> complaint"
  row_order :: "string list"
  escalations :: "escalation list"

definition get_complaint :: "store \<Rightarrow> string \<Rightarrow> complaint option" where
  "get_complaint db complaint_id = rows db complaint_id"

definition insert_row :: "store \<Rightarrow> complaint \<Rightarrow> store" where
  "insert_row db row =
     db\<lparr>rows := (rows db)(c_id row \<mapsto> row), row_order := row_order db @ [c_id row]\<rparr>"

definition mentions_sentiment_column :: "string \<Rightarrow> bool" where
  "mentions_sentiment_column error_str =
     (contains ''emotion_level'' error_str \<or> contains ''sentiment_score'' error_str \<or>
      contains ''urgency_boost'' error_str)"

text \<open>
  \<open>Database.create_complaint\<close>. \<open>insert_error row\<close> is the message of the exception the
  gateway's insert of \<open>row\<close> ends with, if it does. When the message names a sentiment
  column, the insert is retried without those columns.
\<close>

definition create_complaint ::
  "(complaint \<Rightarrow> string option) \<Rightarrow> store \<Rightarrow> complaint \<Rightarrow> string + store" where
  "create_complaint insert_error db complaint_data =
     (case insert_error complaint_data of
        None \<Rightarrow> Inr (insert_row db complaint_data)
      | Some e \<Rightarrow>
          (if mentions_sentiment_column e
           then (let filtered_data = complaint_data\<lparr>c_sentiment_score := None,
                                                     c_emotion_level := None,
                                                     c_urgency_boost := None\<rparr>
                 in (case insert_error filtered_data of
                       None \<Rightarrow> Inr (insert_row db filtered_data)
                     | Some e2 \<Rightarrow> Inl e2))
           else Inl e))"

section \<open>Complaint pipeline (\<open>workflows/complaint_workflow.py\<close>)\<close>

record complaint_state =
  st_complaint_id :: string
  st_description :: pystr
  st_location :: city_field
  st_citizen_name :: "string option"
  st_citizen_email :: "string option"
  st_citizen_phone :: "string option"
  st_structured_category :: string
  st_urgency :: string
  st_department :: string
  st_department_name :: string
  st_sla_deadline :: "real option"
  st_sla_hours :: real
  st_sentiment_score :: pyfloat
  st_emotion_level :: string
  st_urgency_boost :: pyfloat
  st_priority_recommendation :: string
  st_policy_violation :: bool
  st_policy_reference :: "string option"
  st_suggested_action :: "string option"
  st_status :: string
  st_escalation_level :: string
  st_citizen_message :: string
  st_citizen_subject :: string
  st_errors :: "string list"

text \<open>
  The answers of the external collaborators during one run, and the runtime's
  \<open>timedelta\<close> conversion.
\<close>

record policy_json =
  pj_policy_violation :: bool
  pj_legal_hours :: float_field
  pj_policy_reference :: "string option"
  pj_suggested_action :: "string option"

record message_json =
  mj_message :: "string option"
  mj_subject :: "string option"

record services =
  svc_classification :: "classification_json llm"
  svc_understanding :: "understanding_json llm"
  svc_routing :: "routing_json llm"
  svc_sentiment :: "sentiment_json llm"
  svc_sla :: "sla_json llm"
  svc_policy :: "policy_json llm"
  svc_notification :: "message_json llm"
  svc_uuid :: string
  svc_now :: real
  svc_timedelta :: "real \<Rightarrow> real"
  svc_insert_error :: "complaint \<Rightarrow> string option"

definition workflow_fire_keywords :: "string list" where
  "workflow_fire_keywords =
     [''fire'', ''burning'', ''blaze'', ''smoke'', ''flames'', ''on fire'', ''caught fire'',
      ''fire broke out'']"

definition add_error :: "string \<Rightarrow> complaint_state \<Rightarrow> complaint_state" where
  "add_error msg state = state\<lparr>st_errors := st_errors state @ [msg]\<rparr>"

definition fire_double_check :: "complaint_state \<Rightarrow> complaint_state" where
  "fire_double_check state =
     (let has_fire = any_keyword workflow_fire_keywords (lower (st_description state));
          s1 = (if has_fire \<and> st_department state \<noteq> ''fire''
                then state\<lparr>st_department := ''fire'',
                           st_department_name := ''Maharashtra Fire Department'',
                           st_urgency := ''urgent'',
                           st_structured_category := ''safety''\<rparr>
                else state)
      in if has_fire \<and> st_urgency s1 \<noteq> ''urgent'' then s1\<lparr>st_urgency := ''urgent''\<rparr> else s1)"

definition init_sentiment :: "complaint_state \<Rightarrow> complaint_state" where
  "init_sentiment state =
     state\<lparr>st_sentiment_score := Fin 0, st_emotion_level := ''calm'',
           st_urgency_boost := Fin 0, st_priority_recommendation := ''normal''\<rparr>"

definition ultimate_fallback :: "complaint_state \<Rightarrow> complaint_state" where
  "ultimate_fallback state =
     state\<lparr>st_urgency := ''medium'', st_structured_category := ''other'',
           st_department := ''municipal'', st_department_name := ''Municipal Corporation''\<rparr>"

text \<open>\<open>_classify_complaint\<close>, with its two fallbacks.\<close>

definition classify_complaint :: "services \<Rightarrow> complaint_state \<Rightarrow> complaint_state" where
  "classify_complaint svc state =
     (case classification_process (st_description state) (st_location state)
             (svc_classification svc) of
        Inr result \<Rightarrow>
          init_sentiment (fire_double_check
            (state\<lparr>st_structured_category := cr_structured_category result,
                   st_urgency := cr_urgency result,
                   st_department := cr_department result,
                   st_department_name := cr_department_name result\<rparr>))
      | Inl e \<Rightarrow>
          (case understanding_process (st_description state) (svc_understanding svc) of
             Inl e2 \<Rightarrow> ultimate_fallback (add_error (''Classification failed: '' @ e) state)
           | Inr cu \<Rightarrow>
               (case routing_process (svc_routing svc) of
                  Inl e3 \<Rightarrow> ultimate_fallback (add_error (''Classification failed: '' @ e) state)
                | Inr dn \<Rightarrow>
                    (add_error (''Classification failed: '' @ e) state)
                      \<lparr>st_structured_category := fst cu, st_urgency := snd cu,
                       st_department := fst dn, st_department_name := snd dn\<rparr>)))"

text \<open>\<open>urgency_map.get(urgency, 2)\<close>: the rank of an urgency in low < medium < high < urgent.\<close>

definition urgency_level :: "string \<Rightarrow> nat" where
  "urgency_level urgency =
     (if urgency = ''low'' then 1 else if urgency = ''medium'' then 2
      else if urgency = ''high'' then 3 else if urgency = ''urgent'' then 4 else 2)"

definition one_step_up :: "string \<Rightarrow> string" where
  "one_step_up urgency =
     (if urgency = ''low'' then ''medium''
      else if urgency = ''medium'' then ''high'' else urgency)"

definition adjust_urgency :: "string \<Rightarrow> string \<Rightarrow> string \<Rightarrow> string" where
  "adjust_urgency emotion priority urgency =
     (if emotion \<in> set [''angry'', ''urgent'']
      then (if urgency_level urgency < 4 then ''urgent'' else urgency)
      else if emotion = ''frustrated''
      then (if urgency_level urgency < 3 then one_step_up urgency else urgency)
      else if priority = ''high'' \<and> urgency_level urgency < 3
      then one_step_up urgency
      else urgency)"

text \<open>
  \<open>_analyze_sentiment\<close>. The sentiment agent catches its own exceptions, so the
  \<open>except\<close> branch of this node is not reached.
\<close>

definition analyze_sentiment :: "services \<Rightarrow> complaint_state \<Rightarrow> complaint_state" where
  "analyze_sentiment svc state =
     (let sentiment_result = sentiment_process (st_description state) (svc_sentiment svc)
      in state\<lparr>st_sentiment_score := sentiment_score sentiment_result,
               st_emotion_level := emotion_level sentiment_result,
               st_urgency_boost := urgency_boost sentiment_result,
               st_priority_recommendation := priority_recommendation sentiment_result,
               st_urgency := adjust_urgency (emotion_level sentiment_result)
                               (priority_recommendation sentiment_result) (st_urgency state)\<rparr>)"

definition fallback_sla_hours :: "string \<Rightarrow> codepoints \<Rightarrow> string \<Rightarrow> real" where
  "fallback_sla_hours urgency description_lower department =
     (if any_keyword [''fire'', ''burning'', ''blaze'', ''smoke'', ''flames''] description_lower \<or>
         department = ''fire'' then 0.5
      else if urgency = ''urgent'' then 1
      else if urgency = ''high'' then 6
      else if urgency = ''medium'' then 72
      else 168)"

text \<open>
  \<open>_assign_sla\<close>, with the fallback deadline of its \<open>except\<close> branch (whose durations
  are whole minutes, hours and days).
\<close>

definition assign_sla :: "services \<Rightarrow> complaint_state \<Rightarrow> complaint_state" where
  "assign_sla svc state =
     (case sla_process (svc_timedelta svc) (st_urgency state) (st_structured_category state)
             (st_description state) (st_department state) (svc_sla svc) (svc_now svc) of
        Inr result \<Rightarrow>
          state\<lparr>st_sla_deadline := Some (sla_deadline result), st_sla_hours := sla_hours result\<rparr>
      | Inl e \<Rightarrow>
          (let h = fallback_sla_hours (st_urgency state) (lower (st_description state))
                     (st_department state)
           in (add_error (''SLA assignment failed: '' @ e) state)
                \<lparr>st_sla_deadline := Some (svc_now svc + h), st_sla_hours := h\<rparr>))"

text \<open>
  \<open>PolicyIntelligenceAgent.process\<close> returns its default on every exception.
  \<open>pj_legal_hours\<close> is \<open>legal_sla["hours"]\<close>: absent, a float, or a value on which the
  node's comparison raises.
\<close>

definition policy_process :: "policy_json llm \<Rightarrow> policy_json" where
  "policy_process response =
     (case response of
        Parsed policy_data \<Rightarrow> policy_data
      | _ \<Rightarrow> \<lparr>pj_policy_violation = False, pj_legal_hours = FieldAbsent,
              pj_policy_reference = None,
              pj_suggested_action = Some ''Standard complaint processing''\<rparr>)"

definition truthy :: "pyfloat \<Rightarrow> bool" where
  "truthy x = (x \<noteq> Fin 0)"

definition analyze_policy :: "services \<Rightarrow> complaint_state \<Rightarrow> complaint_state" where
  "analyze_policy svc state =
     (let policy_result = policy_process (svc_policy svc)
      in (case pj_legal_hours policy_result of
            FieldBad e \<Rightarrow>
              (add_error (''Policy analysis failed: '' @ e) state)
                \<lparr>st_policy_violation := False, st_policy_reference := None,
                 st_suggested_action := Some ''Standard complaint processing''\<rparr>
          | FieldAbsent \<Rightarrow>
              state\<lparr>st_policy_violation := pj_policy_violation policy_result,
                    st_policy_reference := pj_policy_reference policy_result,
                    st_suggested_action := pj_suggested_action policy_result\<rparr>
          | FieldFloat legal \<Rightarrow>
              state\<lparr>st_policy_violation :=
                      (if truthy legal \<and> st_sla_hours state \<noteq> 0 \<and>
                          float_lt legal (st_sla_hours state)
                       then True else pj_policy_violation policy_result),
                    st_policy_reference := pj_policy_reference policy_result,
                    st_suggested_action := pj_suggested_action policy_result\<rparr>))"

text \<open>The row \<open>_persist_complaint\<close> builds from the pipeline state.\<close>

definition complaint_data_of :: "complaint_state \<Rightarrow> complaint" where
  "complaint_data_of state =
     \<lparr>c_id = st_complaint_id state,
      c_description = chars (st_description state),
      c_structured_category = st_structured_category state,
      c_location = st_location state,
      c_responsible_department = st_department state,
      c_status = ''open'',
      c_urgency = st_urgency state,
      c_sla_deadline = st_sla_deadline state,
      c_escalation_level = ''none'',
      c_citizen_name = st_citizen_name state,
      c_citizen_email = st_citizen_email state,
      c_citizen_phone = st_citizen_phone state,
      c_sentiment_score = Some (st_sentiment_score state),
      c_emotion_level = (if st_emotion_level state = [] then None
                         else Some (st_emotion_level state)),
      c_urgency_boost = Some (st_urgency_boost state),
      c_department_name = st_department_name state,
      c_sla_hours = st_sla_hours state,
      c_workflow_errors = st_errors state,
      c_created_at = None,
      c_updated_at = None\<rparr>"

text \<open>
  \<open>_persist_complaint\<close>: the id is the state's, or a fresh uuid when that is empty; an
  exception of the write is caught and recorded.
\<close>

definition persist_complaint ::
  "services \<Rightarrow> complaint_state \<times> store \<Rightarrow> complaint_state \<times> store" where
  "persist_complaint svc sd =
     (case sd of (state, db) \<Rightarrow>
        (let s1 = state\<lparr>st_complaint_id :=
                          (if st_complaint_id state = [] then svc_uuid svc
                           else st_complaint_id state)\<rparr>
         in (case create_complaint (svc_insert_error svc) db (complaint_data_of s1) of
               Inr db' \<Rightarrow> (s1, db')
             | Inl e \<Rightarrow> (add_error (''Persistence failed: '' @ e) s1, db))))"

text \<open>\<open>CitizenCommunicationAgent.process\<close>: message and subject, or an exception.\<close>

definition communication_process :: "string \<Rightarrow> message_json llm \<Rightarrow> string + (string \<times> string)" where
  "communication_process complaint_id response =
     (case response of
        CallRaises e \<Rightarrow> Inl (''Citizen communication agent failed: '' @ e)
      | Unparseable e \<Rightarrow> Inl (''Citizen communication agent failed: '' @ e)
      | Parsed parsed \<Rightarrow>
          (case mj_message parsed of
             None \<Rightarrow> Inl ''Citizen communication agent failed: LLM returned empty message''
           | Some message \<Rightarrow>
               (if message = []
                then Inl ''Citizen communication agent failed: LLM returned empty message''
                else Inr (message,
                          (case mj_subject parsed of
                             Some subject \<Rightarrow> subject
                           | None \<Rightarrow> ''Update on Your Complaint #'' @
                                       (if complaint_id = [] then ''N/A''
                                        else take 8 complaint_id))))))"

definition notify_citizen :: "services \<Rightarrow> complaint_state \<Rightarrow> complaint_state" where
  "notify_citizen svc state =
     (case communication_process (st_complaint_id state) (svc_notification svc) of
        Inr result \<Rightarrow> state\<lparr>st_citizen_message := fst result, st_citizen_subject := snd result\<rparr>
      | Inl e \<Rightarrow> add_error (''Notification failed: '' @ e) state)"

text \<open>The caller's input and the initial state of \<open>ComplaintWorkflow.run\<close>.\<close>

record complaint_input =
  in_description :: pystr
  in_location :: city_field
  in_citizen_name :: "string option"
  in_citizen_email :: "string option"
  in_citizen_phone :: "string option"

definition initial_state :: "complaint_input \<Rightarrow> complaint_state" where
  "initial_state complaint_data =
     \<lparr>st_complaint_id = [], st_description = in_description complaint_data,
      st_location = in_location complaint_data,
      st_citizen_name = in_citizen_name complaint_data,
      st_citizen_email = in_citizen_email complaint_data,
      st_citizen_phone = in_citizen_phone complaint_data,
      st_structured_category = [], st_urgency = [], st_department = [],
      st_department_name = [], st_sla_deadline = None, st_sla_hours = 0,
      st_sentiment_score = Fin 0, st_emotion_level = ''calm'', st_urgency_boost = Fin 0,
      st_priority_recommendation = ''normal'', st_policy_violation = False,
      st_policy_reference = None, st_suggested_action = None,
      st_status = ''open'', st_escalation_level = ''none'',
      st_citizen_message = [], st_citizen_subject = [], st_errors = []\<rparr>"

text \<open>
  The graph of the workflow, node after node: classify, analyze_sentiment, assign_sla,
  analyze_policy, persist, notify. \<open>classified\<close> is the state after the first node,
  \<open>after_persist\<close> the state and store after the fifth.
\<close>

definition classified :: "services \<Rightarrow> complaint_input \<Rightarrow> complaint_state" where
  "classified svc complaint_data = classify_complaint svc (initial_state complaint_data)"

definition after_persist ::
  "services \<Rightarrow> complaint_input \<Rightarrow> store \<Rightarrow> complaint_state \<times> store" where
  "after_persist svc complaint_data db =
     persist_complaint svc
       (analyze_policy svc (assign_sla svc (analyze_sentiment svc
          (classified svc complaint_data))), db)"

definition run :: "services \<Rightarrow> complaint_input \<Rightarrow> store \<Rightarrow> complaint_state \<times> store" where
  "run svc complaint_data db =
     (case after_persist svc complaint_data db of
        (state, db') \<Rightarrow> (notify_citizen svc state, db'))"

text \<open>
  The row the persistence node writes in a run: built from the state after the policy
  node, with the id filled in.
\<close>

definition written_row :: "services \<Rightarrow> complaint_input \<Rightarrow> complaint" where
  "written_row svc complaint_data =
     complaint_data_of
       ((analyze_policy svc (assign_sla svc (analyze_sentiment svc
          (classified svc complaint_data))))\<lparr>st_complaint_id := svc_uuid svc\<rparr>)"

subsection \<open>Example inputs\<close>

definition empty_store :: store where
  "empty_store = \<lparr>rows = Map.empty, row_order = [], escalations = []\<rparr>"

definition example_input :: "string \<Rightarrow> complaint_input" where
  "example_input description =
     \<lparr>in_description = ascii description, in_location = City (ascii ''Pune''),
      in_citizen_name = Some ''Asha'', in_citizen_email = None, in_citizen_phone = None\<rparr>"

text \<open>
  A run in which every service answers with a parsed object: the classification service
  proposes the health department at low urgency, the sentiment service reports a calm
  text, and the store accepts the write.
\<close>

definition example_services :: services where
  "example_services =
     \<lparr>svc_classification =
        Parsed \<lparr>cj_urgency = Some ''low'', cj_category = Some ''health'',
                cj_department = Some (Key ''maharashtra_health''), cj_department_name = None,
                cj_location = LocationEmpty\<rparr>,
      svc_understanding = CallRaises ''unreachable'',
      svc_routing = CallRaises ''unreachable'',
      svc_sentiment =
        Parsed \<lparr>j_sentiment_score = FieldFloat (Fin 0), j_emotion_level = TextLower ''calm'',
                j_frustration_indicators = Some (Items []), j_urgency_boost = FieldFloat (Fin 0),
                j_priority_recommendation = TextLower ''normal''\<rparr>,
      svc_sla = Parsed \<lparr>j_sla_hours = FieldFloat (Fin 24)\<rparr>,
      svc_policy =
        Parsed \<lparr>pj_policy_violation = False, pj_legal_hours = FieldAbsent,
                pj_policy_reference = None, pj_suggested_action = None\<rparr>,
      svc_notification =
        Parsed \<lparr>mj_message = Some ''Your complaint has been received'', mj_subject = None\<rparr>,
      svc_uuid = ''7c9e6679'',
      svc_now = 0,
      svc_timedelta = nearest_microsecond,
      svc_insert_error = (\<lambda>row. None)\<rparr>"

text \<open>The same run with a classification service that proposes the given urgency.\<close>

definition proposing :: "string \<Rightarrow> services" where
  "proposing urgency =
     example_services\<lparr>svc_classification :=
        Parsed \<lparr>cj_urgency = Some urgency, cj_category = Some ''sanitation'',
                cj_department = Some (Key ''pune_municipal''), cj_department_name = None,
                cj_location = LocationEntries\<rparr>\<rparr>"


section \<open>Monitoring and escalation (\<open>agents/monitoring.py\<close>, \<open>agents/escalation.py\<close>,
  \<open>workflows/monitoring_workflow.py\<close>)\<close>

text \<open>
  In this part the store's reads are taken to succeed: \<open>get_complaint\<close> returns the row
  and a scan returns the ids of the matching rows in \<open>row_order\<close> (when the gateway
  throws, the read methods of the source return nothing, or an empty list). The store's
  writes can fail; how each of them ends is given from outside, as the services' answers
  are.
\<close>

definition matching_ids :: "store \<Rightarrow> (complaint \<Rightarrow> bool) \<Rightarrow> string list" where
  "matching_ids db pred =
     filter (\<lambda>i. case rows db i of None \<Rightarrow> False | Some c \<Rightarrow> pred c) (row_order db)"

definition past_deadline :: "real \<Rightarrow> complaint \<Rightarrow> bool" where
  "past_deadline now c = (case c_sla_deadline c of None \<Rightarrow> False | Some d \<Rightarrow> d < now)"

text \<open>\<open>get_complaints_breaching_sla\<close> and \<open>get_complaints_by_status\<close> (with its limit).\<close>

definition get_complaints_breaching_sla :: "store \<Rightarrow> real \<Rightarrow> string list" where
  "get_complaints_breaching_sla db now =
     matching_ids db (\<lambda>c. past_deadline now c \<and> c_status c \<noteq> ''resolved'' \<and>
                           c_status c \<noteq> ''closed'')"

definition get_complaints_by_status :: "store \<Rightarrow> string \<Rightarrow> nat \<Rightarrow> string list" where
  "get_complaints_by_status db status limit =
     take limit (matching_ids db (\<lambda>c. c_status c = status))"

text \<open>
  \<open>MonitoringAgent._find_stale_complaints\<close>: in progress and
  \<open>(now - updated_at).days > 7\<close>, with time in hours.
\<close>

definition find_stale_complaints :: "store \<Rightarrow> real \<Rightarrow> string list" where
  "find_stale_complaints db now =
     filter (\<lambda>i. case rows db i of
                    None \<Rightarrow> False
                  | Some c \<Rightarrow> (case c_updated_at c of
                                 None \<Rightarrow> False
                               | Some u \<Rightarrow> \<lfloor>(now - u) / 24\<rfloor> > 7))
       (get_complaints_by_status db ''in_progress'' 100)"

text \<open>
  \<open>Database.update_complaint\<close>: the fields given are merged into the row and
  \<open>updated_at\<close> is rewritten; an unknown id changes nothing. The method catches every
  exception of the gateway and returns \<open>None\<close>: \<open>applied\<close> tells whether the gateway
  carried out the update. The caller cannot tell the two apart.
\<close>

definition update_complaint ::
  "bool \<Rightarrow> store \<Rightarrow> string \<Rightarrow> (complaint \<Rightarrow> complaint) \<Rightarrow> real \<Rightarrow> store" where
  "update_complaint applied db complaint_id updates now =
     (if applied
      then (case rows db complaint_id of
              None \<Rightarrow> db
            | Some c \<Rightarrow>
                db\<lparr>rows := (rows db)(complaint_id \<mapsto> (updates c)\<lparr>c_updated_at := Some now\<rparr>)\<rparr>)
      else db)"

text \<open>
  \<open>_followup_stale\<close>: the complaints in progress whose \<open>updated_at\<close> (or, without one,
  \<open>created_at\<close>) is more than three days old get a follow-up; \<open>followed_up i\<close> tells
  whether the follow-up of complaint \<open>i\<close> reached its store update and the gateway carried
  it out (the action may fail before, and the follow-up columns may not exist). The update
  writes follow-up columns only, so the row changes in \<open>updated_at\<close> alone.
\<close>

definition followup_candidates :: "store \<Rightarrow> real \<Rightarrow> string list" where
  "followup_candidates db now =
     filter (\<lambda>i. case rows db i of
                    None \<Rightarrow> False
                  | Some c \<Rightarrow> (case (case c_updated_at c of
                                        None \<Rightarrow> c_created_at c
                                      | Some u \<Rightarrow> Some u) of
                                 None \<Rightarrow> False
                               | Some u \<Rightarrow> u < now - 72))
       (get_complaints_by_status db ''in_progress'' 1000)"

primrec followup_each :: "(string \<Rightarrow> bool) \<Rightarrow> real \<Rightarrow> string list \<Rightarrow> store \<Rightarrow> store" where
  "followup_each followed_up now [] db = db"
| "followup_each followed_up now (i # ids) db =
     followup_each followed_up now ids (update_complaint (followed_up i) db i (\<lambda>c. c) now)"

definition followup_stale :: "(string \<Rightarrow> bool) \<Rightarrow> real \<Rightarrow> store \<Rightarrow> store" where
  "followup_stale followed_up now db =
     followup_each followed_up now (followup_candidates db now) db"

text \<open>
  \<open>check_complaint_status\<close>: (is_breaching_sla, hours_overdue). The hours are
  \<open>round(delta.total_seconds() / 3600.0, 2)\<close>, computed in floating point (the division
  and the rounding to two decimals are the runtime's): \<open>hours d\<close>, the float the source
  computes from a difference of \<open>d\<close> hours, is a parameter.
\<close>

definition check_complaint_status :: "(real \<Rightarrow> real) \<Rightarrow> complaint \<Rightarrow> real \<Rightarrow> bool \<times> real" where
  "check_complaint_status hours c now =
     (case c_sla_deadline c of
        None \<Rightarrow> (False, 0)
      | Some deadline \<Rightarrow>
          (if now > deadline then (True, hours (now - deadline)) else (False, 0)))"

text \<open>
  What the escalation prompt shows the decision service, and the fields of the extracted
  object that the agent reads. The current escalation level is not part of the prompt.
  \<open>ej_escalation_needed\<close> is the truth value of the field. The level is compared with
  strings and then looked up in a dictionary, where a list or an object raises TypeError.
\<close>

record escalation_prompt =
  ep_complaint_id :: string
  ep_category :: string
  ep_description :: codepoints
  ep_department :: string
  ep_hours_overdue :: real
  ep_urgency :: string
  ep_past_escalations :: nat

record escalation_json =
  ej_escalation_needed :: bool
  ej_escalation_level :: "key_value option"
  ej_authority :: "string option"
  ej_reason :: "string option"

record escalation_decision =
  d_escalation_level :: string
  d_escalated_to :: string
  d_reason :: reason

definition get_escalation_authority :: "string \<Rightarrow> string \<Rightarrow> string" where
  "get_escalation_authority level department =
     (if level = ''level_1''
      then (case map_of indian_departments department of
              Some n \<Rightarrow> n | None \<Rightarrow> ''Municipal Corporation'') @ '' - Department Head''
      else if level = ''level_2'' then ''State/City Commissioner''
      else if level = ''level_3'' then ''Chief Secretary / Minister''
      else if level = ''level_4'' then ''Chief Minister / Governor Office''
      else ''Unknown Authority'')"

text \<open>
  \<open>_escalate_with_llm\<close>: \<open>Inr None\<close> is the answer \<open>escalation_needed: False\<close>. The
  default authority is computed (and can raise) whether or not the object names one.
\<close>

definition escalate_with_llm ::
  "(escalation_prompt \<Rightarrow> escalation_json llm) \<Rightarrow> escalation_prompt \<Rightarrow> string \<Rightarrow>
   string + escalation_decision option" where
  "escalate_with_llm llm prompt current_level =
     (case llm prompt of
        CallRaises e \<Rightarrow> Inl e
      | Unparseable e \<Rightarrow> Inl e
      | Parsed parsed \<Rightarrow>
          (let escalation_level =
                 (case ej_escalation_level parsed of None \<Rightarrow> Key ''none'' | Some l \<Rightarrow> l)
           in if \<not> ej_escalation_needed parsed \<or> escalation_level = Key ''none'' \<or>
                 escalation_level = Key current_level
              then Inr None
              else (case escalation_level of
                      Unhashable \<Rightarrow> Inl ''unhashable type''
                    | Key level \<Rightarrow>
                        Inr (Some
                          \<lparr>d_escalation_level = level,
                           d_escalated_to =
                             (case ej_authority parsed of
                                Some a \<Rightarrow> a
                              | None \<Rightarrow> get_escalation_authority level (ep_department prompt)),
                           d_reason =
                             (case ej_reason parsed of
                                Some r \<Rightarrow> GivenReason r
                              | None \<Rightarrow> DefaultReason (ep_hours_overdue prompt)
                                          (ep_urgency prompt))\<rparr>))))"

definition prompt_of :: "store \<Rightarrow> string \<Rightarrow> complaint \<Rightarrow> real \<Rightarrow> string \<Rightarrow> escalation_prompt" where
  "prompt_of db complaint_id complaint hours_overdue urgency =
     \<lparr>ep_complaint_id = complaint_id,
      ep_category = c_structured_category complaint,
      ep_description = take 200 (c_description complaint),
      ep_department = c_responsible_department complaint,
      ep_hours_overdue = hours_overdue,
      ep_urgency = urgency,
      ep_past_escalations =
        length (filter (\<lambda>e. e_complaint_id e = complaint_id) (escalations db))\<rparr>"

text \<open>\<open>EscalationAgent.process\<close>.\<close>

definition escalation_process ::
  "(escalation_prompt \<Rightarrow> escalation_json llm) \<Rightarrow> store \<Rightarrow> string \<Rightarrow> real \<Rightarrow> string \<Rightarrow>
   string \<Rightarrow> string + escalation_decision option" where
  "escalation_process llm db complaint_id hours_overdue urgency current_level =
     (case get_complaint db complaint_id of
        None \<Rightarrow> Inr None
      | Some complaint \<Rightarrow>
          (case escalate_with_llm llm
                  (prompt_of db complaint_id complaint hours_overdue urgency) current_level of
             Inl e \<Rightarrow> Inl (''Escalation agent failed: '' @ e)
           | Inr result \<Rightarrow> Inr result))"

text \<open>One iteration of the loop of \<open>_check_escalations\<close>, and the loop.\<close>

definition check_one ::
  "(escalation_prompt \<Rightarrow> escalation_json llm) \<Rightarrow> (real \<Rightarrow> real) \<Rightarrow> store \<Rightarrow> real \<Rightarrow> string \<Rightarrow>
   (string \<times> escalation_decision) option" where
  "check_one llm hours db now complaint_id =
     (case get_complaint db complaint_id of
        None \<Rightarrow> None
      | Some complaint \<Rightarrow>
          (if fst (check_complaint_status hours complaint now)
           then (case escalation_process llm db complaint_id
                        (snd (check_complaint_status hours complaint now))
                        (c_urgency complaint) (c_escalation_level complaint) of
                   Inl e \<Rightarrow> None
                 | Inr None \<Rightarrow> None
                 | Inr (Some escalation_data) \<Rightarrow> Some (complaint_id, escalation_data))
           else None))"

definition check_escalations ::
  "(escalation_prompt \<Rightarrow> escalation_json llm) \<Rightarrow> (real \<Rightarrow> real) \<Rightarrow> store \<Rightarrow> real \<Rightarrow>
   string list \<Rightarrow> (string \<times> escalation_decision) list" where
  "check_escalations llm hours db now all_complaints =
     List.map_filter (check_one llm hours db now) all_complaints"

text \<open>
  One iteration of the loop of \<open>_escalate_complaints\<close>: \<open>create_escalation\<close>, then
  \<open>update_complaint\<close>. How the gateway ends the insert of the record: the record is stored
  and returned; or it is stored and the gateway returns no data, on which
  \<open>create_escalation\<close> raises; or the insert throws and nothing is stored. When
  \<open>create_escalation\<close> raises, the iteration's \<open>except\<close> branch logs the error and the
  update is skipped.
\<close>

datatype insert_outcome = Stored | StoredUnconfirmed | Refused string

record write_outcome =
  w_insert :: insert_outcome
  w_update_applied :: bool

definition escalation_record :: "real \<Rightarrow> string \<times> escalation_decision \<Rightarrow> escalation" where
  "escalation_record now info =
     \<lparr>e_complaint_id = fst info,
      e_stamp = \<lfloor>now * 3600\<rfloor>,
      e_escalation_level = d_escalation_level (snd info),
      e_reason = d_reason (snd info),
      e_escalated_to = d_escalated_to (snd info)\<rparr>"

text \<open>\<open>Database.create_escalation\<close>: the exception, if any, and the store after the call.\<close>

definition create_escalation :: "insert_outcome \<Rightarrow> store \<Rightarrow> escalation \<Rightarrow> string option \<times> store" where
  "create_escalation outcome db escalation_data =
     (case outcome of
        Stored \<Rightarrow> (None, db\<lparr>escalations := escalations db @ [escalation_data]\<rparr>)
      | StoredUnconfirmed \<Rightarrow>
          (Some ''Failed to create escalation'',
           db\<lparr>escalations := escalations db @ [escalation_data]\<rparr>)
      | Refused e \<Rightarrow> (Some e, db))"

definition escalate_one ::
  "write_outcome \<Rightarrow> real \<Rightarrow> string \<times> escalation_decision \<Rightarrow> store \<Rightarrow> store" where
  "escalate_one outcome now info db =
     (case create_escalation (w_insert outcome) db (escalation_record now info) of
        (Some e, db') \<Rightarrow> db'
      | (None, db') \<Rightarrow>
          update_complaint (w_update_applied outcome) db' (fst info)
            (\<lambda>c. c\<lparr>c_status := ''escalated'',
                    c_escalation_level := d_escalation_level (snd info)\<rparr>)
            now)"

text \<open>
  The loop: \<open>writes k\<close> is how the gateway ends the writes of the iteration number \<open>k\<close>.
\<close>

primrec escalate_complaints ::
  "(nat \<Rightarrow> write_outcome) \<Rightarrow> real \<Rightarrow> nat \<Rightarrow> (string \<times> escalation_decision) list \<Rightarrow> store \<Rightarrow>
   store" where
  "escalate_complaints writes now k [] db = db"
| "escalate_complaints writes now k (info # infos) db =
     escalate_complaints writes now (Suc k) infos (escalate_one (writes k) now info db)"

text \<open>
  One monitoring cycle: monitor, followup, check_escalation, escalate. The lists of
  breaching and stale complaints are taken before the follow-ups. The notify node sends
  messages and does not write the store.
\<close>

definition escalated_in_cycle ::
  "(escalation_prompt \<Rightarrow> escalation_json llm) \<Rightarrow> (real \<Rightarrow> real) \<Rightarrow> (string \<Rightarrow> bool) \<Rightarrow> real \<Rightarrow>
   store \<Rightarrow> (string \<times> escalation_decision) list" where
  "escalated_in_cycle llm hours followed_up now db =
     check_escalations llm hours (followup_stale followed_up now db) now
       (get_complaints_breaching_sla db now @ find_stale_complaints db now)"

definition monitoring_cycle ::
  "(escalation_prompt \<Rightarrow> escalation_json llm) \<Rightarrow> (real \<Rightarrow> real) \<Rightarrow> (string \<Rightarrow> bool) \<Rightarrow>
   (nat \<Rightarrow> write_outcome) \<Rightarrow> real \<Rightarrow> store \<Rightarrow> store" where
  "monitoring_cycle llm hours followed_up writes now db =
     escalate_complaints writes now 0 (escalated_in_cycle llm hours followed_up now db)
       (followup_stale followed_up now db)"

text \<open>
  The recommended escalations of a list whose record the store holds afterwards, and those
  for which it also applied the update of the complaint; \<open>k\<close> is the number of the first
  iteration.
\<close>

primrec stored_records ::
  "(nat \<Rightarrow> write_outcome) \<Rightarrow> nat \<Rightarrow> (string \<times> escalation_decision) list \<Rightarrow>
   (string \<times> escalation_decision) list" where
  "stored_records writes k [] = []"
| "stored_records writes k (info # infos) =
     (case w_insert (writes k) of
        Refused e \<Rightarrow> stored_records writes (Suc k) infos
      | _ \<Rightarrow> info # stored_records writes (Suc k) infos)"

primrec applied_updates ::
  "(nat \<Rightarrow> write_outcome) \<Rightarrow> nat \<Rightarrow> (string \<times> escalation_decision) list \<Rightarrow>
   (string \<times> escalation_decision) list" where
  "applied_updates writes k [] = []"
| "applied_updates writes k (info # infos) =
     (if w_insert (writes k) = Stored \<and> w_update_applied (writes k)
      then info # applied_updates writes (Suc k) infos
      else applied_updates writes (Suc k) infos)"

text \<open>A store whose writes all succeed.\<close>

definition all_written :: "nat \<Rightarrow> write_outcome" where
  "all_written k = \<lparr>w_insert = Stored, w_update_applied = True\<rparr>"

definition writes_succeed :: "(nat \<Rightarrow> write_outcome) \<Rightarrow> nat \<Rightarrow> bool" where
  "writes_succeed writes n =
     (\<forall>k < n. w_insert (writes k) = Stored \<and> w_update_applied (writes k))"

subsection \<open>Example store and decision services\<close>

text \<open>
  In the examples the deadlines are passed by whole numbers of hours, whose float is the
  number itself: the examples take the identity for \<open>hours\<close>.
\<close>

definition whole_hours :: "real \<Rightarrow> real" where
  "whole_hours d = d"

definition overdue_complaint :: complaint where
  "overdue_complaint =
     \<lparr>c_id = ''c1'', c_description = codes ''Garbage not collected'',
      c_structured_category = ''sanitation'', c_location = City (ascii ''Pune''),
      c_responsible_department = ''pune_municipal'', c_status = ''open'', c_urgency = ''low'',
      c_sla_deadline = Some 100, c_escalation_level = ''none'',
      c_citizen_name = None, c_citizen_email = None, c_citizen_phone = None,
      c_sentiment_score = None, c_emotion_level = None, c_urgency_boost = None,
      c_department_name = ''Pune Municipal Corporation (PMC)'', c_sla_hours = 100,
      c_workflow_errors = [], c_created_at = Some 0, c_updated_at = Some 0\<rparr>"

definition overdue_store :: store where
  "overdue_store =
     \<lparr>rows = [''c1'' \<mapsto> overdue_complaint], row_order = [''c1''], escalations = []\<rparr>"


text \<open>A decision service that always proposes level_1.\<close>

definition level_1_service :: "escalation_prompt \<Rightarrow> escalation_json llm" where
  "level_1_service prompt =
     Parsed \<lparr>ej_escalation_needed = True, ej_escalation_level = Some (Key ''level_1''),
             ej_authority = None, ej_reason = None\<rparr>"

text \<open>
  A decision service that proposes level_1 for a complaint never escalated before and
  level_2 otherwise.
\<close>

definition counting_service :: "escalation_prompt \<Rightarrow> escalation_json llm" where
  "counting_service prompt =
     Parsed \<lparr>ej_escalation_needed = True,
             ej_escalation_level =
               Some (Key (if ep_past_escalations prompt = 0 then ''level_1'' else ''level_2'')),
             ej_authority = None, ej_reason = None\<rparr>"

text \<open>
  A decision service whose answer does not depend on the number of past escalations shown
  in the prompt.
\<close>

definition ignores_history :: "(escalation_prompt \<Rightarrow> escalation_json llm) \<Rightarrow> bool" where
  "ignores_history llm = (\<forall>p n. llm (p\<lparr>ep_past_escalations := n\<rparr>) = llm p)"

text \<open>The row after the update of \<open>_escalate_complaints\<close>.\<close>

definition escalated_row :: "real \<Rightarrow> escalation_decision \<Rightarrow> complaint \<Rightarrow> complaint" where
  "escalated_row now d c =
     c\<lparr>c_status := ''escalated'', c_escalation_level := d_escalation_level d,
       c_updated_at := Some now\<rparr>"

section \<open>Properties of the keyword scans\<close>

lemma codes_eq_iff: "(codes a = codes b) = (a = b)"
  by (simp add: codes_def inj_map_eq_map[OF inj_of_char])

lemma codes_Nil_iff: "(codes k = []) = (k = [])"
  by (simp add: codes_def)

lemma starts_with_codes: "starts_with (codes k) (codes s) = starts_with k s"
  by (induction k s rule: starts_with.induct) (simp_all add: codes_def)

lemma contains_codes: "contains (codes k) (codes s) = contains k s"
proof (induction s)
  case Nil
  show ?case by (simp add: codes_def)
next
  case (Cons c cs)
  have "starts_with (codes k) (codes (c # cs)) = starts_with k (c # cs)"
    by (rule starts_with_codes)
  then show ?case using Cons by (simp add: codes_def)
qed

lemma lower_ascii: "lower (ascii s) = codes (map lower_char s)"
  by (induction s) (simp_all add: lower_def ascii_def codes_def)

lemma chars_ascii: "chars (ascii s) = codes s"
  by (simp add: chars_def ascii_def codes_def)

lemma has_ascii: "has k (lower (ascii s)) = contains k (map lower_char s)"
  by (simp add: has_def lower_ascii contains_codes)

lemma any_keyword_ascii:
  "any_keyword kws (lower (ascii s)) = list_ex (\<lambda>k. contains k (map lower_char s)) kws"
  by (simp add: any_keyword_def has_ascii)

lemmas kw_eval = any_keyword_ascii has_ascii lower_char_def upper_to_lower_def

lemma any_keyword_nonempty:
  assumes "any_keyword kws (lower d)" and "[] \<notin> set kws"
  shows "d \<noteq> []"
  using assms by (auto simp: any_keyword_def has_def lower_def list_ex_iff codes_Nil_iff)

lemma any_keyword_mono:
  assumes "set ks \<subseteq> set ks'" and "any_keyword ks s"
  shows "any_keyword ks' s"
  using assms by (auto simp: any_keyword_def list_ex_iff)

text \<open>
  A description can hold a keyword in lower case without holding its letters: "smo",
  U+212A KELVIN SIGN, "e" lowers to "smoke".
\<close>

lemma kelvin_smoke:
  "any_keyword [''smoke''] (lower (ascii ''smo'' @ [(8490, [107])] @ ascii ''e''))"
  by (simp add: any_keyword_def has_def lower_def ascii_def codes_def lower_char_def
        upper_to_lower_def)

section \<open>Properties of the sentiment stage\<close>

lemma clamp_fin:
  assumes "lo \<le> hi"
  shows "\<exists>v. py_max lo (py_min hi x) = Fin v \<and> lo \<le> v \<and> v \<le> hi"
  using assms by (cases x) (simp_all add: py_min_def py_max_def)

lemma float_of_usable:
  assumes "case f of FieldBad e \<Rightarrow> False | _ \<Rightarrow> True"
  shows "\<exists>x. float_of d f = Inr x"
  using assms by (cases f) (simp_all add: float_of_def)

lemma lower_of_usable:
  assumes "case f of TextBad e \<Rightarrow> False | _ \<Rightarrow> True"
  shows "\<exists>x. lower_of d f = Inr x"
  using assms by (cases f) (simp_all add: lower_of_def)

text \<open>On usable fields the conversions return, with the score and the boost clamped.\<close>

lemma analyze_parsed:
  assumes "sentiment_fields_usable p"
  shows "\<exists>r s b. analyze_sentiment_with_llm (Parsed p) = Inr r \<and>
     sentiment_score r = Fin s \<and> - 1 \<le> s \<and> s \<le> 1 \<and>
     urgency_boost r = Fin b \<and> 0 \<le> b \<and> b \<le> 1 \<and>
     (\<exists>noted. note_anger (frustration_indicators r) = Inr noted)"
proof -
  obtain score0 where s0: "float_of (Fin 0) (j_sentiment_score p) = Inr score0"
    using assms float_of_usable by (auto simp: sentiment_fields_usable_def)
  obtain emotion0 where e0: "lower_of ''calm'' (j_emotion_level p) = Inr emotion0"
    using assms lower_of_usable by (auto simp: sentiment_fields_usable_def)
  obtain boost0 where b0: "float_of (Fin 0) (j_urgency_boost p) = Inr boost0"
    using assms float_of_usable by (auto simp: sentiment_fields_usable_def)
  obtain priority0 where p0: "lower_of ''normal'' (j_priority_recommendation p) = Inr priority0"
    using assms lower_of_usable by (auto simp: sentiment_fields_usable_def)
  obtain s where s: "py_max (- 1) (py_min 1 score0) = Fin s" "- 1 \<le> s" "s \<le> 1"
    using clamp_fin[of "- 1" 1] by force
  obtain b where b: "py_max 0 (py_min 1 boost0) = Fin b" "0 \<le> b" "b \<le> 1"
    using clamp_fin[of 0 1] by force
  have n: "\<exists>noted. note_anger
             (case j_frustration_indicators p of None \<Rightarrow> Items [] | Some v \<Rightarrow> v) = Inr noted"
    using assms
    by (auto simp: sentiment_fields_usable_def note_anger_def
             split: option.splits indicators.splits)
  show ?thesis
    using s b n by (simp add: analyze_sentiment_with_llm_def then_do_def s0 e0 b0 p0)
qed

text \<open>On a field of the wrong type the stage raises, and returns its neutral result.\<close>

lemma process_unusable:
  assumes "any_keyword critical_anger (lower description)"
    and "\<not> sentiment_fields_usable p"
  shows "sentiment_process description (Parsed p) = neutral_sentiment"
proof (cases "analyze_sentiment_with_llm (Parsed p)")
  case (Inl e)
  then show ?thesis by (simp add: sentiment_process_def then_do_def)
next
  case (Inr r)
  then have f: "frustration_indicators r =
      (case j_frustration_indicators p of None \<Rightarrow> Items [] | Some v \<Rightarrow> v)"
    and u: "(case j_sentiment_score p of FieldBad e \<Rightarrow> False | _ \<Rightarrow> True) \<and>
            (case j_emotion_level p of TextBad e \<Rightarrow> False | _ \<Rightarrow> True) \<and>
            (case j_urgency_boost p of FieldBad e \<Rightarrow> False | _ \<Rightarrow> True) \<and>
            (case j_priority_recommendation p of TextBad e \<Rightarrow> False | _ \<Rightarrow> True)"
    by (auto simp: analyze_sentiment_with_llm_def then_do_def float_of_def lower_of_def
             split: float_field.splits text_field.splits)
  then obtain e where "j_frustration_indicators p = Some (NoAppend e)"
    using assms(2)
    by (auto simp: sentiment_fields_usable_def split: option.splits indicators.splits)
  then have "anger_overlay (lower description) r = Inl e"
    using assms(1) f by (simp add: anger_overlay_def note_anger_def then_do_def)
  then show ?thesis
    using Inr by (simp add: sentiment_process_def apply_keyword_boosts_def then_do_def Let_def)
qed

lemma process_no_object:
  assumes "\<And>p. response \<noteq> Parsed p"
  shows "sentiment_process description response = neutral_sentiment"
proof (cases response)
  case (Parsed p)
  then show ?thesis using assms by blast
qed (simp_all add: sentiment_process_def analyze_sentiment_with_llm_def then_do_def)

lemma anger_overlay_inv:
  assumes "any_keyword critical_anger dl" and "float_ge (sentiment_score r) (- 1)"
    and "note_anger (frustration_indicators r) = Inr noted"
  shows "\<exists>r'. anger_overlay dl r = Inr r' \<and> angry_inv r'"
  using assms
  by (cases "sentiment_score r"; cases "urgency_boost r")
     (simp_all add: angry_inv_def anger_overlay_def then_do_def py_min_def py_max_def)

lemma frustration_overlay_inv:
  assumes "angry_inv r"
  shows "angry_inv (frustration_overlay dl r)"
  using assms
  by (cases "sentiment_score r"; cases "urgency_boost r")
     (simp_all add: angry_inv_def frustration_overlay_def py_min_def py_max_def)

lemma urgency_overlay_inv:
  assumes "angry_inv r"
  shows "angry_inv (urgency_overlay dl r)"
  using assms
  by (cases "sentiment_score r"; cases "urgency_boost r")
     (simp_all add: angry_inv_def urgency_overlay_def py_min_def py_max_def)

lemma positive_overlay_angry:
  assumes "angry_inv r"
  shows "emotion_level (positive_overlay dl r) = ''angry''"
    and "priority_recommendation (positive_overlay dl r) = ''urgent''"
    and "float_ge (urgency_boost (positive_overlay dl r)) 0.7"
    and "sentiment_score (positive_overlay dl r) =
           (if any_keyword positive_indicators dl then Fin (- 0.3) else sentiment_score r)"
  using assms
  by (cases "sentiment_score r"; simp add: angry_inv_def positive_overlay_def py_max_def)+

text \<open>
  The stage's output on a description with an anger phrase, when the fields of the
  extracted object are usable: the result is the positive block applied to a record
  satisfying \<open>angry_inv\<close>.
\<close>

lemma process_anger:
  assumes "any_keyword critical_anger (lower description)" and "sentiment_fields_usable parsed"
  shows "\<exists>r. angry_inv r \<and>
           sentiment_process description (Parsed parsed) = positive_overlay (lower description) r"
proof -
  have ne: "description \<noteq> []"
    using assms(1) by (rule any_keyword_nonempty) (simp add: critical_anger_def)
  obtain r0 noted where r0: "analyze_sentiment_with_llm (Parsed parsed) = Inr r0"
    and "float_ge (sentiment_score r0) (- 1)"
    and "note_anger (frustration_indicators r0) = Inr noted"
    using analyze_parsed[OF assms(2)] by force
  then obtain r1 where r1: "anger_overlay (lower description) r0 = Inr r1" "angry_inv r1"
    using assms(1) anger_overlay_inv by blast
  then have "angry_inv (urgency_overlay (lower description)
               (frustration_overlay (lower description) r1))"
    by (simp add: frustration_overlay_inv urgency_overlay_inv)
  then show ?thesis
    using ne r0 r1
    by (auto simp: sentiment_process_def apply_keyword_boosts_def then_do_def Let_def)
qed

text \<open>
  C9, as stated, fails: the description below contains the anger phrase "furious" and
  the politeness phrase "please", the service reports a score of -0.9 (in an object whose
  fields all have the expected types), and the stage returns a score that is not
  \<open>\<le> -0.8\<close>: the gratitude/politeness block resets it to -0.3.
\<close>

theorem sentiment_anger_score_counterexample:
  "any_keyword critical_anger (lower (ascii ''I am furious, please help'')) \<and>
   \<not> float_le (sentiment_score (sentiment_process (ascii ''I am furious, please help'')
        (Parsed \<lparr>j_sentiment_score = FieldFloat (Fin (- 0.9)), j_emotion_level = TextLower ''angry'',
                 j_frustration_indicators = Some (Items []),
                 j_urgency_boost = FieldFloat (Fin 0.9),
                 j_priority_recommendation = TextLower ''urgent''\<rparr>))) (- 0.8)"
proof -
  let ?d = "ascii ''I am furious, please help''"
  let ?p = "\<lparr>j_sentiment_score = FieldFloat (Fin (- 0.9)), j_emotion_level = TextLower ''angry'',
             j_frustration_indicators = Some (Items []),
             j_urgency_boost = FieldFloat (Fin 0.9),
             j_priority_recommendation = TextLower ''urgent''\<rparr>"
  have a: "any_keyword critical_anger (lower ?d)"
    by (simp add: kw_eval critical_anger_def)
  have p: "any_keyword positive_indicators (lower ?d)"
    by (simp add: kw_eval positive_indicators_def)
  have u: "sentiment_fields_usable ?p"
    by (simp add: sentiment_fields_usable_def)
  obtain r where "angry_inv r"
    and "sentiment_process ?d (Parsed ?p) = positive_overlay (lower ?d) r"
    using process_anger[OF a u] by blast
  then have "sentiment_score (sentiment_process ?d (Parsed ?p)) = Fin (- 0.3)"
    using p by (simp add: positive_overlay_angry(4))
  then show ?thesis using a by simp
qed

text \<open>
  C9, amended: for every description containing an explicit anger phrase, whenever the
  stage extracts from the service's answer an object whose fields have the types its
  conversions need (\<open>sentiment_score\<close> and \<open>urgency_boost\<close> accepted by \<open>float()\<close>,
  \<open>emotion_level\<close> and \<open>priority_recommendation\<close> strings, \<open>frustration_indicators\<close> a list
  or a value already holding "critical_anger"; each may be absent), the Sentiment stage's
  output has emotion_level = angry, urgency_boost \<open>\<ge>\<close> 0.7 and priority_recommendation =
  urgent, and its sentiment_score is \<open>\<le> -0.8\<close> when the description contains no
  gratitude/politeness phrase and exactly -0.3 when it contains one. In every other case
  (the call throws, no object is extracted, or a field has another type) the stage's own
  code raises and the stage returns its neutral result: emotion_level = calm, score 0,
  boost 0, priority normal.
\<close>

theorem sentiment_anger_overlay:
  assumes "any_keyword critical_anger (lower description)"
  shows "(\<forall>parsed. response = Parsed parsed \<and> sentiment_fields_usable parsed \<longrightarrow>
            emotion_level (sentiment_process description response) = ''angry'' \<and>
            float_ge (urgency_boost (sentiment_process description response)) 0.7 \<and>
            priority_recommendation (sentiment_process description response) = ''urgent'' \<and>
            (if any_keyword positive_indicators (lower description)
             then sentiment_score (sentiment_process description response) = Fin (- 0.3)
             else float_le (sentiment_score (sentiment_process description response)) (- 0.8))) \<and>
         ((\<forall>parsed. response = Parsed parsed \<longrightarrow> \<not> sentiment_fields_usable parsed) \<longrightarrow>
            sentiment_process description response = neutral_sentiment)"
proof -
  have a: "emotion_level (sentiment_process description (Parsed parsed)) = ''angry'' \<and>
         float_ge (urgency_boost (sentiment_process description (Parsed parsed))) 0.7 \<and>
         priority_recommendation (sentiment_process description (Parsed parsed)) = ''urgent'' \<and>
         (if any_keyword positive_indicators (lower description)
          then sentiment_score (sentiment_process description (Parsed parsed)) = Fin (- 0.3)
          else float_le (sentiment_score (sentiment_process description (Parsed parsed))) (- 0.8))"
    if u: "sentiment_fields_usable parsed" for parsed
  proof -
    obtain r where r: "angry_inv r"
      and eq: "sentiment_process description (Parsed parsed) =
                 positive_overlay (lower description) r"
      using process_anger[OF assms u] by blast
    have "float_le (sentiment_score r) (- 0.8)"
      using r by (simp add: angry_inv_def)
    then show ?thesis
      unfolding eq using positive_overlay_angry[OF r, of "lower description"] by simp
  qed
  have b: "sentiment_process description response = neutral_sentiment"
    if n: "\<forall>parsed. response = Parsed parsed \<longrightarrow> \<not> sentiment_fields_usable parsed"
  proof (cases response)
    case (Parsed p)
    then show ?thesis using n process_unusable[OF assms] by simp
  next
    case (CallRaises e)
    then show ?thesis by (simp add: process_no_object)
  next
    case (Unparseable e)
    then show ?thesis by (simp add: process_no_object)
  qed
  show ?thesis using a b by blast
qed

theorem sentiment_anger_overlay_witness:
  "any_keyword critical_anger (lower (ascii ''This is UNACCEPTABLE'')) \<and>
   sentiment_fields_usable
     \<lparr>j_sentiment_score = FieldFloat (Fin 0.5), j_emotion_level = TextLower ''calm'',
      j_frustration_indicators = None, j_urgency_boost = FieldFloat (Fin 0),
      j_priority_recommendation = TextLower ''normal''\<rparr> \<and>
   emotion_level (sentiment_process (ascii ''This is UNACCEPTABLE'')
     (Parsed \<lparr>j_sentiment_score = FieldFloat (Fin 0.5), j_emotion_level = TextLower ''calm'',
              j_frustration_indicators = None, j_urgency_boost = FieldFloat (Fin 0),
              j_priority_recommendation = TextLower ''normal''\<rparr>)) = ''angry'' \<and>
   float_le (sentiment_score (sentiment_process (ascii ''This is UNACCEPTABLE'')
     (Parsed \<lparr>j_sentiment_score = FieldFloat (Fin 0.5), j_emotion_level = TextLower ''calm'',
              j_frustration_indicators = None, j_urgency_boost = FieldFloat (Fin 0),
              j_priority_recommendation = TextLower ''normal''\<rparr>))) (- 0.8) \<and>
   \<not> sentiment_fields_usable
     \<lparr>j_sentiment_score = FieldBad ''float() argument must be a string or a real number'',
      j_emotion_level = TextLower ''angry'', j_frustration_indicators = None,
      j_urgency_boost = FieldFloat (Fin 0.9), j_priority_recommendation = TextLower ''urgent''\<rparr> \<and>
   emotion_level (sentiment_process (ascii ''This is UNACCEPTABLE'')
     (Parsed \<lparr>j_sentiment_score = FieldBad ''float() argument must be a string or a real number'',
              j_emotion_level = TextLower ''angry'', j_frustration_indicators = None,
              j_urgency_boost = FieldFloat (Fin 0.9),
              j_priority_recommendation = TextLower ''urgent''\<rparr>)) = ''calm''"
proof -
  let ?good = "\<lparr>j_sentiment_score = FieldFloat (Fin 0.5), j_emotion_level = TextLower ''calm'',
      j_frustration_indicators = None, j_urgency_boost = FieldFloat (Fin 0),
      j_priority_recommendation = TextLower ''normal''\<rparr>"
  let ?bad = "\<lparr>j_sentiment_score = FieldBad ''float() argument must be a string or a real number'',
      j_emotion_level = TextLower ''angry'', j_frustration_indicators = None,
      j_urgency_boost = FieldFloat (Fin 0.9), j_priority_recommendation = TextLower ''urgent''\<rparr>"
  have a: "any_keyword critical_anger (lower (ascii ''This is UNACCEPTABLE''))"
    by (simp add: kw_eval critical_anger_def)
  have p: "\<not> any_keyword positive_indicators (lower (ascii ''This is UNACCEPTABLE''))"
    by (simp add: kw_eval positive_indicators_def)
  have g: "sentiment_fields_usable ?good"
    by (simp add: sentiment_fields_usable_def)
  have b: "\<not> sentiment_fields_usable ?bad"
    by (simp add: sentiment_fields_usable_def)
  have "emotion_level (sentiment_process (ascii ''This is UNACCEPTABLE'') (Parsed ?good)) = ''angry'' \<and>
        float_le (sentiment_score (sentiment_process (ascii ''This is UNACCEPTABLE'') (Parsed ?good)))
          (- 0.8)"
    using p g sentiment_anger_overlay[OF a, of "Parsed ?good"] by simp
  moreover have "sentiment_process (ascii ''This is UNACCEPTABLE'') (Parsed ?bad) = neutral_sentiment"
    using b sentiment_anger_overlay[OF a, of "Parsed ?bad"] by simp
  ultimately show ?thesis
    using a g b by (simp add: neutral_sentiment_def)
qed

section \<open>Properties of the SLA stage\<close>

lemma band_nan [simp]: "(band lo hi x = NaN) = (x = NaN)"
  by (cases x) (simp_all add: band_def)

lemma band_if_nan [simp]: "(band_if c lo hi x = NaN) = (x = NaN)"
  by (simp add: band_if_def)

lemma cap_nan [simp]: "(cap hi x = NaN) = (x = NaN)"
  by (cases x) (simp_all add: cap_def)

lemma final_validation_nan [simp]: "(final_validation x = NaN) = (x = NaN)"
  by (cases x) (simp_all add: final_validation_def Let_def)

lemma urgent_sla_nan: "(urgent_sla dl dep x = NaN) = (x = NaN)"
  by (simp add: urgent_sla_def Let_def)
lemma high_sla_nan: "(high_sla dl dep x = NaN) = (x = NaN)"
  by (simp add: high_sla_def Let_def)
lemma medium_sla_nan: "(medium_sla dl dep x = NaN) = (x = NaN)"
  by (simp add: medium_sla_def Let_def)
lemma low_sla_nan: "(low_sla dl dep x = NaN) = (x = NaN)"
  by (simp add: low_sla_def Let_def)

lemma clamp_sla_nan: "(clamp_sla u d dep x = NaN) = (x = NaN)"
  by (simp add: clamp_sla_def Let_def urgent_sla_nan high_sla_nan medium_sla_nan low_sla_nan)

lemma final_validation_range:
  "final_validation x = NaN \<or>
   (float_ge (final_validation x) 0.25 \<and> float_le (final_validation x) 336)"
  by (cases x) (simp_all add: final_validation_def Let_def)

lemma float_between:
  assumes "float_ge y a" and "float_le y b"
  shows "\<exists>v. y = Fin v \<and> a \<le> v \<and> v \<le> b"
  using assms by (cases y) simp_all

lemma final_validation_le:
  assumes "float_le x c" "0.25 \<le> c"
  shows "float_le (final_validation x) c"
  using assms by (cases x) (simp_all add: final_validation_def Let_def)

lemma final_validation_ge:
  assumes "float_ge x c" "c \<le> 336"
  shows "float_ge (final_validation x) c"
  using assms by (cases x) (simp_all add: final_validation_def Let_def)

lemma cap_le: "cap hi x = NaN \<or> float_le (cap hi x) hi"
  by (cases x) (simp_all add: cap_def)

lemma band_range:
  assumes "lo \<le> hi"
  shows "band lo hi x = NaN \<or> (float_ge (band lo hi x) lo \<and> float_le (band lo hi x) hi)"
  using assms by (cases x) (simp_all add: band_def)

lemma clamp_sla_range:
  "clamp_sla u d dep x = NaN \<or>
   (float_ge (clamp_sla u d dep x) 0.25 \<and> float_le (clamp_sla u d dep x) 336)"
  unfolding clamp_sla_def Let_def by (rule final_validation_range)

lemma clamp_sla_urgent:
  assumes "clamp_sla ''urgent'' d dep x = Fin v"
  shows "v \<le> 2"
proof -
  have "urgent_sla (lower d) dep x = NaN \<or> float_le (urgent_sla (lower d) dep x) 2"
    unfolding urgent_sla_def Let_def by (rule cap_le)
  then show ?thesis
    using assms final_validation_le[of "urgent_sla (lower d) dep x" 2]
    by (auto simp: clamp_sla_def Let_def final_validation_def)
qed

lemma clamp_sla_low:
  assumes "clamp_sla ''low'' d dep x = Fin v"
  shows "168 \<le> v"
proof -
  have "low_sla (lower d) dep x = NaN \<or> float_ge (low_sla (lower d) dep x) 168"
    unfolding low_sla_def Let_def using band_range[of 168 336] by fastforce
  then show ?thesis
    using assms final_validation_ge[of "low_sla (lower d) dep x" 168]
    by (auto simp: clamp_sla_def Let_def final_validation_def)
qed

lemma deadline_result_Inr:
  "(deadline_result timedelta now h = Inr r) =
     (\<exists>v. h = Fin v \<and> \<bar>v\<bar> \<le> 24 * 999999999 \<and>
          r = \<lparr>sla_deadline = now + timedelta v, sla_hours = v\<rparr>)"
  by (cases h) (auto simp: deadline_result_def)

lemma assign_sla_Inr:
  assumes "assign_sla_with_llm timedelta urgency category description department response now =
           Inr r"
  shows "\<exists>raw. clamp_sla urgency description department raw = Fin (sla_hours r) \<and>
               sla_deadline r = now + timedelta (sla_hours r)"
  using assms
  by (auto simp: assign_sla_with_llm_def then_do_def float_of_def deadline_result_Inr
           split: llm.splits float_field.splits sum.splits)

lemma sla_process_Inr:
  assumes "sla_process timedelta urgency category description department response now = Inr r"
  shows "\<exists>raw. clamp_sla urgency description department raw = Fin (sla_hours r) \<and>
               sla_deadline r = now + timedelta (sla_hours r)"
  using assms
    assign_sla_Inr[of timedelta urgency category description department response now r]
  by (simp add: sla_process_def split: sum.splits)

lemma clamp_sla_Fin_range:
  assumes "clamp_sla u d dep x = Fin v"
  shows "0.25 \<le> v \<and> v \<le> 336"
  using assms clamp_sla_range[of u d dep x] by auto

lemma nearest_microsecond_accurate: "accurate_timedelta nearest_microsecond"
proof -
  have "\<bar>nearest_microsecond h - h\<bar> \<le> microsecond" for h
  proof -
    have "\<bar>real_of_int (round (h * 3600000000)) - h * 3600000000\<bar> \<le> 1 / 2"
      by (rule of_int_round_abs_le)
    then have "\<bar>real_of_int (round (h * 3600000000)) / 3600000000 - h\<bar> \<le> (1 / 2) / 3600000000"
      by (simp add: field_simps)
    then show ?thesis by (simp add: nearest_microsecond_def microsecond_def)
  qed
  then show ?thesis by (simp add: accurate_timedelta_def)
qed

lemma fire_pune_keywords:
  "any_keyword sla_fire_keywords (lower (ascii ''Fire in Hinjewadi Pune''))"
  "\<not> any_keyword sla_medical_keywords (lower (ascii ''Fire in Hinjewadi Pune''))"
  "\<not> any_keyword sla_accident_keywords (lower (ascii ''Fire in Hinjewadi Pune''))"
  "\<not> any_keyword sla_gas_keywords (lower (ascii ''Fire in Hinjewadi Pune''))"
  "\<not> any_keyword sla_collapse_keywords (lower (ascii ''Fire in Hinjewadi Pune''))"
  "\<not> any_keyword sla_crime_keywords (lower (ascii ''Fire in Hinjewadi Pune''))"
  "\<not> any_keyword sla_electrical_keywords (lower (ascii ''Fire in Hinjewadi Pune''))"
  by (simp_all add: kw_eval sla_fire_keywords_def sla_medical_keywords_def
        sla_accident_keywords_def sla_gas_keywords_def sla_collapse_keywords_def
        sla_crime_keywords_def sla_electrical_keywords_def)

lemma urgent_fire_pune:
  "urgent_sla (lower (ascii ''Fire in Hinjewadi Pune'')) ''fire'' h = cap 2 (band 0.25 0.5 h)"
  by (simp add: urgent_sla_def fire_pune_keywords band_if_def)

text \<open>
  For this urgent fire complaint only the fire block applies: a suggestion above half an
  hour becomes half an hour, one below a quarter becomes a quarter, one between stays.
\<close>

lemma clamp_urgent_fire:
  "clamp_sla ''urgent'' (ascii ''Fire in Hinjewadi Pune'') ''fire'' (Fin x) =
     Fin (if x > 0.5 then 0.5 else if x < 0.25 then 0.25 else x)"
  by (simp add: clamp_sla_def urgent_fire_pune final_validation_def band_def cap_def Let_def)

lemma low_paint:
  "low_sla (lower (ascii ''Faded paint'')) ''municipal'' h = band 168 336 (band_if True 168 336 h)"
  by (simp add: low_sla_def kw_eval sla_cosmetic_keywords_def)

lemma clamp_low_paint_1:
  "clamp_sla ''low'' (ascii ''Faded paint'') ''municipal'' (Fin 1) = Fin 168"
  by (simp add: clamp_sla_def low_paint final_validation_def band_if_def band_def Let_def)

lemmas sla_eval = sla_process_def assign_sla_with_llm_def then_do_def float_of_def
  deadline_result_def nearest_microsecond_def round_def

text \<open>
  C3, as stated, fails in its last part: for the urgent fire complaint below the service
  suggests 0.3000000001 hours, which every clamp leaves as it is; the stage returns
  sla_hours = 0.3000000001, and a deadline of the clock reading plus 0.3 hours (18
  minutes exactly: the duration is rounded to whole microseconds), which is not the clock
  reading plus sla_hours.
\<close>

theorem sla_deadline_rounded_counterexample:
  "sla_process nearest_microsecond ''urgent'' ''safety'' (ascii ''Fire in Hinjewadi Pune'') ''fire''
     (Parsed \<lparr>j_sla_hours = FieldFloat (Fin 0.3000000001)\<rparr>) 10 =
     Inr \<lparr>sla_deadline = 10.3, sla_hours = 0.3000000001\<rparr> \<and>
   sla_deadline \<lparr>sla_deadline = 10.3, sla_hours = 0.3000000001\<rparr> \<noteq>
     10 + sla_hours \<lparr>sla_deadline = 10.3, sla_hours = 0.3000000001\<rparr>"
  by (simp add: sla_eval clamp_urgent_fire)

text \<open>
  C3, amended: whenever the SLA stage returns, the returned sla_hours lies in [0.25, 336];
  it is \<open>\<le> 2\<close> when the urgency entering the stage is urgent, and in [168, 336] when it is
  low; and sla_deadline is the clock reading plus the duration that \<open>timedelta\<close> makes of
  sla_hours (sla_hours rounded to whole microseconds), hence within a microsecond of the
  clock reading plus sla_hours. The suggestion of the service is universally quantified
  (\<open>response\<close>), as are the description and the department.
\<close>

theorem sla_hours_bounds:
  assumes "sla_process timedelta urgency category description department response now = Inr r"
  shows "0.25 \<le> sla_hours r \<and> sla_hours r \<le> 336 \<and>
         (urgency = ''urgent'' \<longrightarrow> sla_hours r \<le> 2) \<and>
         (urgency = ''low'' \<longrightarrow> 168 \<le> sla_hours r \<and> sla_hours r \<le> 336) \<and>
         sla_deadline r = now + timedelta (sla_hours r) \<and>
         (accurate_timedelta timedelta \<longrightarrow>
            \<bar>sla_deadline r - (now + sla_hours r)\<bar> \<le> microsecond)"
proof -
  obtain raw where c: "clamp_sla urgency description department raw = Fin (sla_hours r)"
    and d: "sla_deadline r = now + timedelta (sla_hours r)"
    using sla_process_Inr[OF assms] by blast
  have range: "0.25 \<le> sla_hours r \<and> sla_hours r \<le> 336"
    using c by (rule clamp_sla_Fin_range)
  have "urgency = ''urgent'' \<longrightarrow> sla_hours r \<le> 2"
    using c clamp_sla_urgent by blast
  moreover have "urgency = ''low'' \<longrightarrow> 168 \<le> sla_hours r"
    using c clamp_sla_low by blast
  moreover have "accurate_timedelta timedelta \<longrightarrow>
            \<bar>sla_deadline r - (now + sla_hours r)\<bar> \<le> microsecond"
    using range d by (simp add: accurate_timedelta_def)
  ultimately show ?thesis using range d by simp
qed

lemma sla_urgent_fire_example:
  "sla_process nearest_microsecond ''urgent'' ''safety'' (ascii ''Fire in Hinjewadi Pune'') ''fire''
     (Parsed \<lparr>j_sla_hours = FieldFloat (Fin 100)\<rparr>) 10 = Inr \<lparr>sla_deadline = 10.5, sla_hours = 0.5\<rparr>"
  by (simp add: sla_eval clamp_urgent_fire)

lemma sla_low_paint_example:
  "sla_process nearest_microsecond ''low'' ''other'' (ascii ''Faded paint'') ''municipal''
     (Parsed \<lparr>j_sla_hours = FieldFloat (Fin 1)\<rparr>) 10 = Inr \<lparr>sla_deadline = 178, sla_hours = 168\<rparr>"
  by (simp add: sla_eval clamp_low_paint_1)

theorem sla_hours_bounds_witness:
  "sla_process nearest_microsecond ''urgent'' ''safety'' (ascii ''Fire in Hinjewadi Pune'') ''fire''
     (Parsed \<lparr>j_sla_hours = FieldFloat (Fin 100)\<rparr>) 10 =
     Inr \<lparr>sla_deadline = 10.5, sla_hours = 0.5\<rparr> \<and>
   sla_hours \<lparr>sla_deadline = 10.5, sla_hours = 0.5\<rparr> \<le> 2 \<and>
   sla_process nearest_microsecond ''low'' ''other'' (ascii ''Faded paint'') ''municipal''
     (Parsed \<lparr>j_sla_hours = FieldFloat (Fin 1)\<rparr>) 10 =
     Inr \<lparr>sla_deadline = 178, sla_hours = 168\<rparr> \<and>
   168 \<le> sla_hours \<lparr>sla_deadline = 178, sla_hours = 168\<rparr> \<and>
   accurate_timedelta nearest_microsecond \<and>
   \<bar>sla_deadline \<lparr>sla_deadline = 178, sla_hours = 168\<rparr> -
      (10 + sla_hours \<lparr>sla_deadline = 178, sla_hours = 168\<rparr>)\<bar> \<le> microsecond"
  using sla_hours_bounds[OF sla_urgent_fire_example] sla_hours_bounds[OF sla_low_paint_example]
        sla_urgent_fire_example sla_low_paint_example nearest_microsecond_accurate
  by simp

lemma sla_returns:
  assumes "\<not> call_throws response" and "\<not> sla_rejected response"
  shows "\<exists>r. sla_process timedelta urgency category description department response now = Inr r"
proof -
  obtain parsed where p: "response = Parsed parsed"
    using assms by (cases response) (simp_all add: call_throws_def sla_rejected_def)
  define raw where "raw = (case j_sla_hours parsed of FieldAbsent \<Rightarrow> Fin (default_sla urgency) | FieldFloat x \<Rightarrow> x | FieldBad e \<Rightarrow> NaN)"
  have nn: "raw \<noteq> NaN"
    using assms(2) p by (simp add: raw_def sla_rejected_def split: float_field.splits)
  then have "clamp_sla urgency description department raw \<noteq> NaN"
    by (simp add: clamp_sla_nan)
  then obtain v where v: "clamp_sla urgency description department raw = Fin v" "0.25 \<le> v" "v \<le> 336"
    using clamp_sla_range[of urgency description department raw] float_between by blast
  then have "deadline_result timedelta now (clamp_sla urgency description department raw) =
             Inr \<lparr>sla_deadline = now + timedelta v, sla_hours = v\<rparr>"
    by (simp add: deadline_result_Inr)
  then show ?thesis
    using p assms(2)
    by (simp add: sla_process_def assign_sla_with_llm_def then_do_def float_of_def raw_def
          sla_rejected_def split: float_field.splits)
qed

lemma clamp_sla_NaN: "clamp_sla u d dep NaN = NaN"
  by (simp add: clamp_sla_nan)

lemma sla_fails:
  assumes "call_throws response \<or> sla_rejected response"
  shows "\<exists>e. sla_process timedelta urgency category description department response now = Inl e"
proof (cases response)
  case (Parsed parsed)
  then have "j_sla_hours parsed = FieldFloat NaN \<or> (\<exists>e. j_sla_hours parsed = FieldBad e)"
    using assms by (auto simp: call_throws_def sla_rejected_def split: float_field.splits)
  then show ?thesis
    using Parsed
    by (auto simp: sla_process_def assign_sla_with_llm_def then_do_def float_of_def
          clamp_sla_NaN deadline_result_def)
qed (simp_all add: sla_process_def assign_sla_with_llm_def)

text \<open>
  C6, as stated, fails: the call below returns (it does not throw) an answer whose
  sla_hours is the invalid value NaN, which \<open>json.loads\<close> and \<open>float()\<close> accept; NaN passes
  every clamp unchanged (each of its comparisons is false), \<open>timedelta\<close> raises on it, and
  the stage raises instead of clamping.
\<close>

theorem sla_rejects_output_counterexample:
  "\<not> call_throws (Parsed \<lparr>j_sla_hours = FieldFloat NaN\<rparr>) \<and>
   sla_process nearest_microsecond ''medium'' ''sanitation'' (ascii ''Garbage not collected'')
     ''municipal'' (Parsed \<lparr>j_sla_hours = FieldFloat NaN\<rparr>) 0 =
   Inl ''SLA assignment agent failed: cannot convert float NaN to integer''"
  by (simp add: call_throws_def sla_process_def assign_sla_with_llm_def then_do_def float_of_def
        clamp_sla_NaN deadline_result_def)

text \<open>
  C6, amended, in terms of what the stage itself extracts from the returned text: the SLA
  stage fails exactly when the external service call throws, or the stage's own
  extraction of a JSON object from the returned text raises (no brace-delimited object is
  found, the braces are unbalanced, or \<open>json.loads\<close> rejects the extracted text), or
  \<open>float()\<close> rejects the sla_hours of the extracted object, or that sla_hours is NaN. In
  every other case, including a missing, out-of-range or infinite sla_hours, the value is
  not rejected: the stage returns, with sla_hours clamped into [0.25, 336].
\<close>

theorem sla_failure_cases:
  "(isl (sla_process timedelta urgency category description department response now) =
      (call_throws response \<or> sla_rejected response)) \<and>
   (\<not> call_throws response \<and> \<not> sla_rejected response \<longrightarrow>
      (\<exists>r. sla_process timedelta urgency category description department response now = Inr r \<and>
            0.25 \<le> sla_hours r \<and> sla_hours r \<le> 336))"
proof -
  have a: "call_throws response \<or> sla_rejected response \<Longrightarrow>
           isl (sla_process timedelta urgency category description department response now)"
    using sla_fails[of response timedelta urgency category description department now] by auto
  have b: "\<not> call_throws response \<and> \<not> sla_rejected response \<Longrightarrow>
      (\<exists>r. sla_process timedelta urgency category description department response now = Inr r \<and>
            0.25 \<le> sla_hours r \<and> sla_hours r \<le> 336)"
  proof -
    assume h: "\<not> call_throws response \<and> \<not> sla_rejected response"
    then obtain r where r:
      "sla_process timedelta urgency category description department response now = Inr r"
      using sla_returns by blast
    then obtain raw where "clamp_sla urgency description department raw = Fin (sla_hours r)"
      using sla_process_Inr by blast
    then have "0.25 \<le> sla_hours r \<and> sla_hours r \<le> 336" by (rule clamp_sla_Fin_range)
    then show ?thesis using r by blast
  qed
  show ?thesis using a b by (cases "call_throws response \<or> sla_rejected response") auto
qed

theorem sla_failure_cases_witness:
  "\<not> call_throws (Parsed \<lparr>j_sla_hours = FieldFloat PInf\<rparr>) \<and>
   \<not> sla_rejected (Parsed \<lparr>j_sla_hours = FieldFloat PInf\<rparr>) \<and>
   (\<exists>r. sla_process nearest_microsecond ''medium'' ''sanitation'' (ascii ''Garbage not collected'')
          ''municipal'' (Parsed \<lparr>j_sla_hours = FieldFloat PInf\<rparr>) 0 = Inr r \<and>
        0.25 \<le> sla_hours r \<and> sla_hours r \<le> 336)"
  using sla_failure_cases[of nearest_microsecond "''medium''" "''sanitation''"
          "ascii ''Garbage not collected''" "''municipal''"
          "Parsed \<lparr>j_sla_hours = FieldFloat PInf\<rparr>" 0]
  by (simp add: call_throws_def sla_rejected_def)

section \<open>Properties of the complaint pipeline\<close>

lemma adjust_urgency_ge: "urgency_level u \<le> urgency_level (adjust_urgency e p u)"
  by (simp add: adjust_urgency_def urgency_level_def one_step_up_def)

lemma assign_sla_keeps:
  "st_urgency (assign_sla svc s) = st_urgency s"
  "st_department (assign_sla svc s) = st_department s"
  "st_structured_category (assign_sla svc s) = st_structured_category s"
  "st_emotion_level (assign_sla svc s) = st_emotion_level s"
  by (simp_all add: assign_sla_def add_error_def Let_def split: sum.splits)

lemma analyze_policy_keeps:
  "st_urgency (analyze_policy svc s) = st_urgency s"
  "st_department (analyze_policy svc s) = st_department s"
  "st_structured_category (analyze_policy svc s) = st_structured_category s"
  "st_emotion_level (analyze_policy svc s) = st_emotion_level s"
  by (simp_all add: analyze_policy_def add_error_def Let_def split: float_field.splits)

lemma persist_complaint_keeps:
  "st_urgency (fst (persist_complaint svc (s, db))) = st_urgency s"
  "st_department (fst (persist_complaint svc (s, db))) = st_department s"
  "st_structured_category (fst (persist_complaint svc (s, db))) = st_structured_category s"
  "st_emotion_level (fst (persist_complaint svc (s, db))) = st_emotion_level s"
  by (simp_all add: persist_complaint_def add_error_def Let_def split: sum.splits)

lemma notify_citizen_keeps:
  "st_urgency (notify_citizen svc s) = st_urgency s"
  "st_department (notify_citizen svc s) = st_department s"
  "st_structured_category (notify_citizen svc s) = st_structured_category s"
  "st_emotion_level (notify_citizen svc s) = st_emotion_level s"
  by (simp_all add: notify_citizen_def add_error_def split: sum.splits)

lemma analyze_sentiment_keeps:
  "st_department (analyze_sentiment svc s) = st_department s"
  "st_structured_category (analyze_sentiment svc s) = st_structured_category s"
  by (simp_all add: analyze_sentiment_def Let_def)

lemma run_state:
  "fst (run svc inp db) = notify_citizen svc (fst (after_persist svc inp db))"
  by (simp add: run_def split: prod.splits)

lemmas stage_keeps = assign_sla_keeps analyze_policy_keeps persist_complaint_keeps notify_citizen_keeps

lemma run_urgency:
  "st_urgency (fst (run svc inp db)) = st_urgency (analyze_sentiment svc (classified svc inp))"
  by (simp add: run_state after_persist_def stage_keeps)

lemma run_department:
  "st_department (fst (run svc inp db)) = st_department (classified svc inp)"
  "st_structured_category (fst (run svc inp db)) = st_structured_category (classified svc inp)"
  by (simp_all add: run_state after_persist_def stage_keeps analyze_sentiment_keeps)

lemma run_emotion:
  "st_emotion_level (fst (run svc inp db)) = st_emotion_level (analyze_sentiment svc (classified svc inp))"
  by (simp add: run_state after_persist_def stage_keeps)

lemma analyze_sentiment_urgency:
  "st_urgency (analyze_sentiment svc s) =
     adjust_urgency (st_emotion_level (analyze_sentiment svc s))
       (st_priority_recommendation (analyze_sentiment svc s)) (st_urgency s)"
  by (simp add: analyze_sentiment_def Let_def)

lemma urgency_monotone:
  "urgency_level (st_urgency (classified svc inp)) \<le> urgency_level (st_urgency (fst (run svc inp db)))"
  unfolding run_urgency analyze_sentiment_urgency by (rule adjust_urgency_ge)

lemma workflow_fire_subset: "set workflow_fire_keywords \<subseteq> set fire_keywords"
  by (simp add: workflow_fire_keywords_def fire_keywords_def)

lemma fire_nonempty: "[] \<notin> set fire_keywords"
  by (simp add: fire_keywords_def)

lemma medical_nonempty: "[] \<notin> set medical_keywords"
  by (simp add: medical_keywords_def)

lemma classification_fire:
  assumes "any_keyword fire_keywords (lower d)" and "location_mergeable p"
  shows "\<exists>n. classification_process d loc (Parsed p) =
           Inr \<lparr>cr_urgency = ''urgent'', cr_structured_category = ''safety'',
                cr_department = ''fire'', cr_department_name = n\<rparr>"
proof -
  have ne: "d \<noteq> []" using assms(1) fire_nonempty by (rule any_keyword_nonempty)
  have k: "keyword_routing (lower d) loc = Inr (Some ''fire'', Some ''urgent'', Some ''safety'')"
    using assms(1) by (simp add: keyword_routing_def)
  have m: "merge_location (cj_location p) = Inr ()"
    using assms(2) by (simp add: location_mergeable_def merge_location_def split: location_field.splits)
  show ?thesis
    using ne
    by (simp add: classification_process_def classify_with_llm_def k m then_do_def
          police_safety_check_def refine_municipal_def validate_urgency_def valid_urgencies_def
          validate_category_def valid_categories_def validate_department_def
          indian_departments_def)
qed

lemma classification_medical:
  assumes "any_keyword medical_keywords (lower d)" and "\<not> any_keyword fire_keywords (lower d)"
    and "location_mergeable p"
  shows "\<exists>n. classification_process d loc (Parsed p) =
           Inr \<lparr>cr_urgency = ''urgent'', cr_structured_category = ''health'',
                cr_department = ''maharashtra_health'', cr_department_name = n\<rparr>"
proof -
  have ne: "d \<noteq> []" using assms(1) medical_nonempty by (rule any_keyword_nonempty)
  have k: "keyword_routing (lower d) loc =
             Inr (Some ''maharashtra_health'', Some ''urgent'', Some ''health'')"
    using assms(1,2) by (simp add: keyword_routing_def)
  have m: "merge_location (cj_location p) = Inr ()"
    using assms(3) by (simp add: location_mergeable_def merge_location_def split: location_field.splits)
  show ?thesis
    using ne
    by (simp add: classification_process_def classify_with_llm_def k m then_do_def
          police_safety_check_def refine_municipal_def validate_urgency_def valid_urgencies_def
          validate_category_def valid_categories_def validate_department_def
          indian_departments_def)
qed

lemma classified_fire:
  assumes "any_keyword fire_keywords (lower (in_description inp))"
    and "svc_classification svc = Parsed p" and "location_mergeable p"
  shows "st_department (classified svc inp) = ''fire''"
    and "st_urgency (classified svc inp) = ''urgent''"
    and "st_structured_category (classified svc inp) = ''safety''"
proof -
  obtain n where "classification_process (in_description inp) (in_location inp) (Parsed p) =
           Inr \<lparr>cr_urgency = ''urgent'', cr_structured_category = ''safety'',
                cr_department = ''fire'', cr_department_name = n\<rparr>"
    using classification_fire[OF assms(1,3)] by blast
  then show "st_department (classified svc inp) = ''fire''"
    and "st_urgency (classified svc inp) = ''urgent''"
    and "st_structured_category (classified svc inp) = ''safety''"
    using assms(2)
    by (simp_all add: classified_def classify_complaint_def initial_state_def
          init_sentiment_def fire_double_check_def Let_def)
qed

lemma classified_medical:
  assumes "any_keyword medical_keywords (lower (in_description inp))"
    and "\<not> any_keyword fire_keywords (lower (in_description inp))"
    and "svc_classification svc = Parsed p" and "location_mergeable p"
  shows "st_department (classified svc inp) = ''maharashtra_health''"
    and "st_urgency (classified svc inp) = ''urgent''"
    and "st_structured_category (classified svc inp) = ''health''"
proof -
  have nf: "\<not> any_keyword workflow_fire_keywords (lower (in_description inp))"
    using assms(2) any_keyword_mono[OF workflow_fire_subset] by blast
  obtain n where "classification_process (in_description inp) (in_location inp) (Parsed p) =
           Inr \<lparr>cr_urgency = ''urgent'', cr_structured_category = ''health'',
                cr_department = ''maharashtra_health'', cr_department_name = n\<rparr>"
    using classification_medical[OF assms(1,2,4)] by blast
  then show "st_department (classified svc inp) = ''maharashtra_health''"
    and "st_urgency (classified svc inp) = ''urgent''"
    and "st_structured_category (classified svc inp) = ''health''"
    using assms(3) nf
    by (simp_all add: classified_def classify_complaint_def initial_state_def
          init_sentiment_def fire_double_check_def Let_def)
qed

lemma adjust_urgency_urgent: "adjust_urgency e p ''urgent'' = ''urgent''"
  by (simp add: adjust_urgency_def urgency_level_def one_step_up_def)

lemma run_urgent:
  assumes "st_urgency (classified svc inp) = ''urgent''"
  shows "st_urgency (fst (run svc inp db)) = ''urgent''"
  using assms by (simp add: run_urgency analyze_sentiment_urgency adjust_urgency_urgent)

text \<open>
  C4, amended: whenever the classification stage extracts an object from the service's
  answer and the object's location entry is empty or a dictionary (so that the stage's
  merge of it does not raise), for every description that contains a fire keyword once
  lowered the pipeline's final department is fire, its final urgency urgent and its final
  category safety; and for every description matching a medical-emergency keyword and no
  fire keyword, the final department is the health department and the final urgency
  urgent. The values the service proposes are universally quantified (\<open>p\<close>); what happens
  when the call fails, no object is extracted or the location entry has another type is
  not part of this statement.
\<close>

theorem emergency_routing:
  assumes "svc_classification svc = Parsed p" and "location_mergeable p"
  shows "(any_keyword fire_keywords (lower (in_description inp)) \<longrightarrow>
            st_department (fst (run svc inp db)) = ''fire'' \<and>
            st_urgency (fst (run svc inp db)) = ''urgent'' \<and>
            st_structured_category (fst (run svc inp db)) = ''safety'') \<and>
         (any_keyword medical_keywords (lower (in_description inp)) \<and>
          \<not> any_keyword fire_keywords (lower (in_description inp)) \<longrightarrow>
            st_department (fst (run svc inp db)) = ''maharashtra_health'' \<and>
            st_urgency (fst (run svc inp db)) = ''urgent'')"
  using classified_fire[OF _ assms, of inp] classified_medical[OF _ _ assms, of inp]
  by (simp add: run_department run_urgent)

lemma classified_description: "st_description (classified svc inp) = in_description inp"
  by (simp add: classified_def classify_complaint_def initial_state_def init_sentiment_def
        fire_double_check_def ultimate_fallback_def add_error_def Let_def
        split: sum.splits)

lemma run_emotion_eq:
  "st_emotion_level (fst (run svc inp db)) =
     emotion_level (sentiment_process (in_description inp) (svc_sentiment svc))"
  by (simp add: run_emotion analyze_sentiment_def Let_def classified_description)

lemma adjust_angry:
  assumes "e \<in> set [''angry'', ''urgent'']"
  shows "adjust_urgency e p u = ''urgent''"
  using assms by (auto simp: adjust_urgency_def urgency_level_def split: if_splits)

lemma adjust_frustrated:
  "adjust_urgency ''frustrated'' p ''low'' = ''medium''"
  "adjust_urgency ''frustrated'' p ''medium'' = ''high''"
  "adjust_urgency ''frustrated'' p ''high'' = ''high''"
  "adjust_urgency ''frustrated'' p ''urgent'' = ''urgent''"
  by (simp_all add: adjust_urgency_def urgency_level_def one_step_up_def)

lemma adjust_frustrated_level:
  "urgency_level (adjust_urgency ''frustrated'' p u) \<le> urgency_level u + 1"
  by (simp add: adjust_urgency_def urgency_level_def one_step_up_def)

text \<open>
  C8: in a run of the pipeline, if the emotion level the sentiment step stored is angry or
  urgent, the final urgency is urgent; if it is frustrated, a classified urgency of low
  ends as medium and one of medium ends as high, while high and urgent stay as they are
  (the classified urgency is always one of the four, by C2), so that the final urgency is
  at most one rank above the classified one; and the final urgency is the one the
  sentiment step left: no later node changes it.
\<close>

theorem sentiment_urgency_coupling:
  "(st_emotion_level (fst (run svc inp db)) \<in> set [''angry'', ''urgent''] \<longrightarrow>
      st_urgency (fst (run svc inp db)) = ''urgent'') \<and>
   (st_emotion_level (fst (run svc inp db)) = ''frustrated'' \<longrightarrow>
      (st_urgency (classified svc inp) = ''low'' \<longrightarrow>
         st_urgency (fst (run svc inp db)) = ''medium'') \<and>
      (st_urgency (classified svc inp) = ''medium'' \<longrightarrow>
         st_urgency (fst (run svc inp db)) = ''high'') \<and>
      (st_urgency (classified svc inp) = ''high'' \<longrightarrow>
         st_urgency (fst (run svc inp db)) = ''high'') \<and>
      (st_urgency (classified svc inp) = ''urgent'' \<longrightarrow>
         st_urgency (fst (run svc inp db)) = ''urgent'') \<and>
      urgency_level (st_urgency (fst (run svc inp db))) \<le>
        urgency_level (st_urgency (classified svc inp)) + 1) \<and>
   st_urgency (fst (run svc inp db)) = st_urgency (analyze_sentiment svc (classified svc inp))"
proof -
  have e: "st_emotion_level (fst (run svc inp db)) =
           st_emotion_level (analyze_sentiment svc (classified svc inp))"
    by (rule run_emotion)
  show ?thesis
    unfolding e run_urgency analyze_sentiment_urgency
    using adjust_angry adjust_frustrated adjust_frustrated_level by auto
qed

lemma garbage_ignored_keywords:
  "\<not> any_keyword critical_anger (lower (ascii ''Garbage ignored''))"
  "any_keyword high_frustration (lower (ascii ''Garbage ignored''))"
  by (simp_all add: kw_eval critical_anger_def high_frustration_def)

lemma garbage_outraged_keywords:
  "any_keyword critical_anger (lower (ascii ''Garbage! Outraged''))"
  by (simp add: kw_eval critical_anger_def)

lemma example_sentiment:
  "analyze_sentiment_with_llm (svc_sentiment example_services) =
     Inr \<lparr>sentiment_score = Fin 0, emotion_level = ''calm'', frustration_indicators = Items [],
          urgency_boost = Fin 0, priority_recommendation = ''normal''\<rparr>"
  by (simp add: example_services_def analyze_sentiment_with_llm_def then_do_def float_of_def
        lower_of_def valid_emotions_def valid_priorities_def py_min_def py_max_def)

lemma overlay_emotion:
  "emotion_level (positive_overlay dl r) = emotion_level r"
  "emotion_level (urgency_overlay dl r) = emotion_level r"
  by (simp_all add: positive_overlay_def urgency_overlay_def)

lemma ascii_nonempty: "(ascii s = []) = (s = [])"
  by (simp add: ascii_def)

lemma ex_frustrated:
  "st_emotion_level (fst (run example_services (example_input ''Garbage ignored'') db)) =
     ''frustrated''"
  by (simp add: run_emotion_eq example_input_def sentiment_process_def ascii_nonempty
        example_sentiment apply_keyword_boosts_def then_do_def anger_overlay_def
        frustration_overlay_def garbage_ignored_keywords overlay_emotion Let_def)

lemma ex_frustrated_proposing:
  "st_emotion_level (fst (run (proposing u) (example_input ''Garbage ignored'') db)) =
     ''frustrated''"
  using example_sentiment
  by (simp add: run_emotion_eq example_input_def sentiment_process_def ascii_nonempty
        proposing_def apply_keyword_boosts_def then_do_def anger_overlay_def
        frustration_overlay_def garbage_ignored_keywords overlay_emotion Let_def)

lemma ex_angry:
  "st_emotion_level (fst (run example_services (example_input ''Garbage! Outraged'') db)) =
     ''angry''"
  by (simp add: run_emotion_eq example_input_def sentiment_process_def ascii_nonempty
        example_sentiment apply_keyword_boosts_def then_do_def anger_overlay_def note_anger_def
        frustration_overlay_def garbage_outraged_keywords overlay_emotion Let_def)

lemma garbage_routing:
  "keyword_routing (lower (ascii ''Garbage ignored'')) (City (ascii ''Pune'')) =
     Inr (Some ''pune_municipal'', None, Some ''sanitation'')"
  by (simp add: keyword_routing_def kw_eval fire_keywords_def medical_keywords_def
        accident_keywords_def gas_keywords_def police_keywords_def then_do_def city_lower_def
        municipal_for_def)

lemma garbage_no_fire:
  "\<not> any_keyword workflow_fire_keywords (lower (ascii ''Garbage ignored''))"
  "\<not> any_keyword police_keywords (lower (ascii ''Garbage ignored''))"
  by (simp_all add: kw_eval workflow_fire_keywords_def police_keywords_def)

lemmas classify_eval = classified_def classify_complaint_def example_input_def
  initial_state_def classification_process_def classify_with_llm_def ascii_nonempty
  garbage_routing garbage_no_fire then_do_def police_safety_check_def refine_municipal_def
  validate_urgency_def valid_urgencies_def validate_category_def valid_categories_def
  validate_department_def merge_location_def indian_departments_def department_name_of_def
  init_sentiment_def fire_double_check_def Let_def

lemma ex_cls_urgency:
  "st_urgency (classified example_services (example_input ''Garbage ignored'')) = ''low''"
  by (simp add: classify_eval example_services_def)

lemma ex_cls_urgency_proposing:
  "st_urgency (classified (proposing ''medium'') (example_input ''Garbage ignored'')) = ''medium''"
  "st_urgency (classified (proposing ''high'') (example_input ''Garbage ignored'')) = ''high''"
  "st_urgency (classified (proposing ''urgent'') (example_input ''Garbage ignored'')) = ''urgent''"
  by (simp_all add: classify_eval proposing_def)

lemma validate_urgency_valid: "validate_urgency u \<in> set valid_urgencies"
  by (simp add: validate_urgency_def valid_urgencies_def)

lemma police_safety_check_urgency:
  assumes "police_safety_check dl loc (d, u, c) = Inr (d', u', c')" and "u \<in> set valid_urgencies"
  shows "u' \<in> set valid_urgencies"
  using assms
  by (auto simp: police_safety_check_def then_do_def valid_urgencies_def split: if_splits sum.splits)

lemma then_do_Inr:
  "(then_do x f = Inr r) = (\<exists>y. x = Inr y \<and> f y = Inr r)"
  by (cases x) (simp_all add: then_do_def)

lemma classify_with_llm_urgency:
  assumes "classify_with_llm d loc response = Inr r"
  shows "cr_urgency r \<in> set valid_urgencies"
proof -
  obtain kd ku kc where k: "keyword_routing (lower d) loc = Inr (kd, ku, kc)"
    using assms by (cases "keyword_routing (lower d) loc") (auto simp: classify_with_llm_def then_do_def)
  obtain p where p: "response = Parsed p"
    using assms k by (cases response) (auto simp: classify_with_llm_def then_do_def)
  define u where "u = validate_urgency (case ku of None \<Rightarrow> (case cj_urgency p of None \<Rightarrow> ''medium'' | Some u \<Rightarrow> u) | Some u \<Rightarrow> u)"
  have uv: "u \<in> set valid_urgencies" unfolding u_def by (rule validate_urgency_valid)
  from assms k p obtain d1 c d2 u2 c2 where
    "police_safety_check (lower d) loc (d1, u, c) = Inr (d2, u2, c2)" and "cr_urgency r = u2"
    by (auto simp: classify_with_llm_def then_do_Inr u_def split: prod.splits)
  then show ?thesis using police_safety_check_urgency uv by metis
qed

lemma understanding_urgency:
  assumes "understanding_process d response = Inr cu"
  shows "snd cu \<in> set valid_urgencies"
  using assms validate_urgency_valid
  by (auto simp: understanding_process_def split: if_splits llm.splits sum.splits)

lemma fire_double_check_urgency:
  assumes "st_urgency s \<in> set valid_urgencies"
  shows "st_urgency (fire_double_check s) \<in> set valid_urgencies"
  using assms by (simp add: fire_double_check_def Let_def valid_urgencies_def)

lemma classified_urgency_valid: "st_urgency (classified svc inp) \<in> set valid_urgencies"
proof (cases "classification_process (in_description inp) (in_location inp) (svc_classification svc)")
  case (Inr r)
  then have "cr_urgency r \<in> set valid_urgencies"
    using classify_with_llm_urgency
    by (auto simp: classification_process_def split: if_splits sum.splits)
  then have "st_urgency (fire_double_check
            ((initial_state inp)\<lparr>st_structured_category := cr_structured_category r,
                   st_urgency := cr_urgency r,
                   st_department := cr_department r,
                   st_department_name := cr_department_name r\<rparr>)) \<in> set valid_urgencies"
    by (simp add: fire_double_check_urgency)
  then show ?thesis
    using Inr by (simp add: classified_def classify_complaint_def init_sentiment_def initial_state_def)
next
  case (Inl e)
  show ?thesis
  proof (cases "understanding_process (in_description inp) (svc_understanding svc)")
    case (Inl e2)
    then show ?thesis using \<open>classification_process _ _ _ = Inl e\<close>
      by (simp add: classified_def classify_complaint_def initial_state_def ultimate_fallback_def valid_urgencies_def)
  next
    case (Inr cu)
    then have "snd cu \<in> set valid_urgencies" by (rule understanding_urgency)
    then show ?thesis using Inr \<open>classification_process _ _ _ = Inl e\<close>
      by (simp add: classified_def classify_complaint_def initial_state_def ultimate_fallback_def
            add_error_def valid_urgencies_def split: sum.splits)
  qed
qed

text \<open>
  C2: the urgency the classification node leaves in the state is one of low, medium, high,
  urgent, and the urgency at the end of the pipeline ranks at least as high in
  low < medium < high < urgent, for every input, every answer of every service and every
  store.
\<close>

theorem urgency_never_lowered:
  "st_urgency (classified svc inp) \<in> set valid_urgencies \<and>
   urgency_level (st_urgency (classified svc inp)) \<le>
     urgency_level (st_urgency (fst (run svc inp db)))"
  using classified_urgency_valid urgency_monotone by simp

lemma create_complaint_rows:
  assumes "create_complaint ie db row = Inr db'" and "rows db' i = Some c" and "rows db i \<noteq> Some c"
  shows "c_status c = c_status row \<and> c_escalation_level c = c_escalation_level row"
  using assms
  by (auto simp: create_complaint_def insert_row_def Let_def split: option.splits if_splits)

lemma persist_rows:
  assumes "rows (snd (persist_complaint svc (s, db))) i = Some c" and "rows db i \<noteq> Some c"
  shows "c_status c = ''open'' \<and> c_escalation_level c = ''none''"
proof (cases "create_complaint (svc_insert_error svc) db
        (complaint_data_of (s\<lparr>st_complaint_id := (if st_complaint_id s = [] then svc_uuid svc else st_complaint_id s)\<rparr>))")
  case (Inl e)
  then show ?thesis using assms by (simp add: persist_complaint_def Let_def)
next
  case (Inr db')
  then have "rows db' i = Some c" using assms(1) by (simp add: persist_complaint_def Let_def)
  then show ?thesis
    using create_complaint_rows[OF Inr _ assms(2)] by (simp add: complaint_data_of_def)
qed

lemma run_store: "snd (run svc inp db) = snd (after_persist svc inp db)"
  by (simp add: run_def split: prod.splits)

text \<open>
  C10: every complaint row that is in the store after a run of the pipeline and was not
  there before it has status open and escalation level none, whatever the classified
  urgency, the sentiment outcome and the errors of earlier nodes.
\<close>

theorem created_open_none:
  assumes "rows (snd (run svc inp db)) i = Some c" and "rows db i \<noteq> Some c"
  shows "c_status c = ''open'' \<and> c_escalation_level c = ''none''"
  using assms persist_rows by (simp add: run_store after_persist_def)

lemma classified_quiet:
  "st_complaint_id (classified svc inp) = []"
  "st_citizen_message (classified svc inp) = []"
  by (simp_all add: classified_def classify_complaint_def initial_state_def init_sentiment_def
        fire_double_check_def ultimate_fallback_def add_error_def Let_def
        split: sum.splits)

lemma analyze_sentiment_quiet:
  "st_complaint_id (analyze_sentiment svc s) = st_complaint_id s"
  "st_citizen_message (analyze_sentiment svc s) = st_citizen_message s"
  by (simp_all add: analyze_sentiment_def Let_def)

lemma assign_sla_quiet:
  "st_complaint_id (assign_sla svc s) = st_complaint_id s"
  "st_citizen_message (assign_sla svc s) = st_citizen_message s"
  by (simp_all add: assign_sla_def add_error_def Let_def split: sum.splits)

lemma analyze_policy_quiet:
  "st_complaint_id (analyze_policy svc s) = st_complaint_id s"
  "st_citizen_message (analyze_policy svc s) = st_citizen_message s"
  by (simp_all add: analyze_policy_def add_error_def Let_def split: float_field.splits)

lemmas stage_quiet = classified_quiet analyze_sentiment_quiet assign_sla_quiet analyze_policy_quiet

text \<open>The persistence node in a run, in terms of the row it writes.\<close>

lemma after_persist_written:
  "after_persist svc inp db =
     (case create_complaint (svc_insert_error svc) db (written_row svc inp) of
        Inr db' \<Rightarrow> ((analyze_policy svc (assign_sla svc (analyze_sentiment svc
                      (classified svc inp))))\<lparr>st_complaint_id := svc_uuid svc\<rparr>, db')
      | Inl e \<Rightarrow> (add_error (''Persistence failed: '' @ e)
                   ((analyze_policy svc (assign_sla svc (analyze_sentiment svc
                      (classified svc inp))))\<lparr>st_complaint_id := svc_uuid svc\<rparr>), db))"
  by (simp add: after_persist_def persist_complaint_def written_row_def stage_quiet Let_def)









lemma example_store_accepts:
  "create_complaint (svc_insert_error example_services) db row = Inr (insert_row db row)"
  by (simp add: create_complaint_def example_services_def)

lemma written_row_id: "c_id (written_row svc inp) = svc_uuid svc"
  by (simp add: written_row_def complaint_data_of_def)

lemma written_row_open:
  "c_status (written_row svc inp) = ''open''" "c_escalation_level (written_row svc inp) = ''none''"
  by (simp_all add: written_row_def complaint_data_of_def)

theorem created_open_none_witness:
  "rows (snd (run example_services (example_input ''Garbage ignored'') empty_store)) ''7c9e6679'' =
     Some (written_row example_services (example_input ''Garbage ignored'')) \<and>
   rows empty_store ''7c9e6679'' \<noteq>
     Some (written_row example_services (example_input ''Garbage ignored'')) \<and>
   c_status (written_row example_services (example_input ''Garbage ignored'')) = ''open'' \<and>
   c_escalation_level (written_row example_services (example_input ''Garbage ignored'')) = ''none''"
proof -
  have a: "rows (snd (run example_services (example_input ''Garbage ignored'') empty_store)) ''7c9e6679'' =
     Some (written_row example_services (example_input ''Garbage ignored''))"
    by (simp add: run_store after_persist_written example_store_accepts insert_row_def
          written_row_id) (simp add: example_services_def)
  have b: "rows empty_store ''7c9e6679'' \<noteq>
     Some (written_row example_services (example_input ''Garbage ignored''))"
    by (simp add: empty_store_def)
  show ?thesis using a b created_open_none[OF a b] by simp
qed

lemma example_parsed:
  "svc_classification example_services =
     Parsed \<lparr>cj_urgency = Some ''low'', cj_category = Some ''health'',
             cj_department = Some (Key ''maharashtra_health''), cj_department_name = None,
             cj_location = LocationEmpty\<rparr>"
  by (simp add: example_services_def)

lemma example_mergeable:
  "location_mergeable
     \<lparr>cj_urgency = Some ''low'', cj_category = Some ''health'',
      cj_department = Some (Key ''maharashtra_health''), cj_department_name = None,
      cj_location = LocationEmpty\<rparr>"
  by (simp add: location_mergeable_def)

lemma example_description: "in_description (example_input d) = ascii d"
  by (simp add: example_input_def)

text \<open>
  C4, as stated, fails: the description below matches the medical-emergency keyword
  "ambulance", the classification service answers (proposing the health department, in
  an object with no location entry), and the final department is fire, not the health
  department: the fire branch precedes the medical branch in the keyword chain.
\<close>

theorem medical_keyword_fire_counterexample:
  "any_keyword medical_keywords (lower (ascii ''Fire at mill, ambulance needed'')) \<and>
   st_department (fst (run example_services (example_input ''Fire at mill, ambulance needed'')
                         empty_store)) = ''fire''"
proof -
  have m: "any_keyword medical_keywords (lower (ascii ''Fire at mill, ambulance needed''))"
    by (simp add: kw_eval medical_keywords_def)
  have f: "any_keyword fire_keywords
             (lower (in_description (example_input ''Fire at mill, ambulance needed'')))"
    by (simp add: example_description kw_eval fire_keywords_def)
  show ?thesis
    using m classified_fire(1)[OF f example_parsed example_mergeable]
    by (simp add: run_department)
qed

theorem emergency_routing_witness:
  "svc_classification example_services =
     Parsed \<lparr>cj_urgency = Some ''low'', cj_category = Some ''health'',
             cj_department = Some (Key ''maharashtra_health''), cj_department_name = None,
             cj_location = LocationEmpty\<rparr> \<and>
   location_mergeable
     \<lparr>cj_urgency = Some ''low'', cj_category = Some ''health'',
      cj_department = Some (Key ''maharashtra_health''), cj_department_name = None,
      cj_location = LocationEmpty\<rparr> \<and>
   any_keyword fire_keywords (lower (ascii ''Fire in Hinjewadi'')) \<and>
   st_department (fst (run example_services (example_input ''Fire in Hinjewadi'')
                         empty_store)) = ''fire'' \<and>
   st_urgency (fst (run example_services (example_input ''Fire in Hinjewadi'')
                      empty_store)) = ''urgent'' \<and>
   st_structured_category (fst (run example_services (example_input ''Fire in Hinjewadi'')
                                  empty_store)) = ''safety'' \<and>
   any_keyword medical_keywords (lower (ascii ''Heart attack at bus stand'')) \<and>
   \<not> any_keyword fire_keywords (lower (ascii ''Heart attack at bus stand'')) \<and>
   st_department (fst (run example_services (example_input ''Heart attack at bus stand'')
                         empty_store)) = ''maharashtra_health'' \<and>
   st_urgency (fst (run example_services (example_input ''Heart attack at bus stand'')
                      empty_store)) = ''urgent''"
proof -
  have f: "any_keyword fire_keywords (lower (ascii ''Fire in Hinjewadi''))"
    by (simp add: kw_eval fire_keywords_def)
  have m: "any_keyword medical_keywords (lower (ascii ''Heart attack at bus stand''))"
    by (simp add: kw_eval medical_keywords_def)
  have nf: "\<not> any_keyword fire_keywords (lower (ascii ''Heart attack at bus stand''))"
    by (simp add: kw_eval fire_keywords_def)
  show ?thesis
    using f m nf example_parsed example_mergeable
      emergency_routing[OF example_parsed example_mergeable,
        of "example_input ''Fire in Hinjewadi''" empty_store]
      emergency_routing[OF example_parsed example_mergeable,
        of "example_input ''Heart attack at bus stand''" empty_store]
    by (simp add: example_description)
qed

theorem sentiment_urgency_coupling_witness:
  "st_emotion_level (fst (run example_services (example_input ''Garbage! Outraged'')
                            empty_store)) \<in> set [''angry'', ''urgent''] \<and>
   st_urgency (fst (run example_services (example_input ''Garbage! Outraged'')
                      empty_store)) = ''urgent'' \<and>
   st_emotion_level (fst (run example_services (example_input ''Garbage ignored'')
                            empty_store)) = ''frustrated'' \<and>
   st_urgency (classified example_services (example_input ''Garbage ignored'')) = ''low'' \<and>
   st_urgency (fst (run example_services (example_input ''Garbage ignored'')
                      empty_store)) = ''medium'' \<and>
   st_emotion_level (fst (run (proposing ''medium'') (example_input ''Garbage ignored'')
                            empty_store)) = ''frustrated'' \<and>
   st_urgency (classified (proposing ''medium'') (example_input ''Garbage ignored'')) =
     ''medium'' \<and>
   st_urgency (fst (run (proposing ''medium'') (example_input ''Garbage ignored'')
                      empty_store)) = ''high'' \<and>
   st_emotion_level (fst (run (proposing ''high'') (example_input ''Garbage ignored'')
                            empty_store)) = ''frustrated'' \<and>
   st_urgency (classified (proposing ''high'') (example_input ''Garbage ignored'')) = ''high'' \<and>
   st_urgency (fst (run (proposing ''high'') (example_input ''Garbage ignored'')
                      empty_store)) = ''high'' \<and>
   st_emotion_level (fst (run (proposing ''urgent'') (example_input ''Garbage ignored'')
                            empty_store)) = ''frustrated'' \<and>
   st_urgency (classified (proposing ''urgent'') (example_input ''Garbage ignored'')) =
     ''urgent'' \<and>
   st_urgency (fst (run (proposing ''urgent'') (example_input ''Garbage ignored'')
                      empty_store)) = ''urgent''"
  using ex_angry ex_frustrated ex_cls_urgency ex_frustrated_proposing ex_cls_urgency_proposing
    sentiment_urgency_coupling[of example_services "example_input ''Garbage! Outraged''"
      empty_store]
    sentiment_urgency_coupling[of example_services "example_input ''Garbage ignored''"
      empty_store]
    sentiment_urgency_coupling[of "proposing ''medium''" "example_input ''Garbage ignored''"
      empty_store]
    sentiment_urgency_coupling[of "proposing ''high''" "example_input ''Garbage ignored''"
      empty_store]
    sentiment_urgency_coupling[of "proposing ''urgent''" "example_input ''Garbage ignored''"
      empty_store]
  by simp

section \<open>Properties of the monitoring cycle\<close>

subsection \<open>The store operations\<close>

lemma update_complaint_rows:
  "rows (update_complaint a db i f now) j =
     (if a \<and> j = i then map_option (\<lambda>c. (f c)\<lparr>c_updated_at := Some now\<rparr>) (rows db i)
      else rows db j)"
  by (simp add: update_complaint_def split: option.splits)

lemma update_complaint_other:
  "escalations (update_complaint a db i f now) = escalations db"
  "row_order (update_complaint a db i f now) = row_order db"
  by (simp_all add: update_complaint_def split: option.splits)

lemma followup_each_other:
  "escalations (followup_each fu now ids db) = escalations db"
  "row_order (followup_each fu now ids db) = row_order db"
  by (induction ids arbitrary: db) (simp_all add: update_complaint_other)

lemma followup_each_rows:
  "\<exists>u. rows (followup_each fu now ids db) i = map_option (\<lambda>c. c\<lparr>c_updated_at := u\<rparr>) (rows db i)"
proof (induction ids arbitrary: db)
  case Nil
  show ?case
  proof (cases "rows db i")
    case None
    then show ?thesis by simp
  next
    case (Some c)
    then have "rows db i = map_option (\<lambda>c. c\<lparr>c_updated_at := c_updated_at c\<rparr>) (rows db i)" by simp
    then show ?thesis by (metis Some followup_each.simps(1) option.simps(9))
  qed
next
  case (Cons i0 ids)
  define db' where "db' = update_complaint (fu i0) db i0 (\<lambda>c. c) now"
  obtain u where u: "rows (followup_each fu now ids db') i = map_option (\<lambda>c. c\<lparr>c_updated_at := u\<rparr>) (rows db' i)"
    using Cons.IH by blast
  have "rows db' i = rows db i \<or> rows db' i = map_option (\<lambda>c. c\<lparr>c_updated_at := Some now\<rparr>) (rows db i)"
    by (simp add: db'_def update_complaint_rows)
  then have "map_option (\<lambda>c. c\<lparr>c_updated_at := u\<rparr>) (rows db' i) = map_option (\<lambda>c. c\<lparr>c_updated_at := u\<rparr>) (rows db i)"
    by (cases "rows db i") auto
  then show ?case using u by (auto simp: db'_def)
qed

lemma followup_stale_rows:
  "\<exists>u. rows (followup_stale fu now db) i = map_option (\<lambda>c. c\<lparr>c_updated_at := u\<rparr>) (rows db i)"
  unfolding followup_stale_def by (rule followup_each_rows)

lemma followup_stale_other:
  "escalations (followup_stale fu now db) = escalations db"
  "row_order (followup_stale fu now db) = row_order db"
  by (simp_all add: followup_stale_def followup_each_other)

lemma escalated_row_fun:
  "(\<lambda>c. c\<lparr>c_status := ''escalated'', c_escalation_level := d_escalation_level d,
          c_updated_at := Some now\<rparr>) = escalated_row now d"
  by (rule ext) (simp add: escalated_row_def)

lemma escalate_one_rows:
  "rows (escalate_one w now info db) j =
     (if w_insert w = Stored \<and> w_update_applied w \<and> j = fst info
      then map_option (escalated_row now (snd info)) (rows db j) else rows db j)"
  by (cases "w_insert w")
     (simp_all add: escalate_one_def create_escalation_def update_complaint_rows escalated_row_fun)

lemma escalate_one_other:
  "escalations (escalate_one w now info db) =
     escalations db @ (case w_insert w of Refused e \<Rightarrow> [] | _ \<Rightarrow> [escalation_record now info])"
  "row_order (escalate_one w now info db) = row_order db"
  by (cases "w_insert w"; simp add: escalate_one_def create_escalation_def update_complaint_other)+

lemma escalate_complaints_other:
  "escalations (escalate_complaints writes now k infos db) =
     escalations db @ map (escalation_record now) (stored_records writes k infos)"
  "row_order (escalate_complaints writes now k infos db) = row_order db"
  by (induction infos arbitrary: db k)
     (simp_all add: escalate_one_other split: insert_outcome.splits)


lemma stored_records_subset: "set (stored_records writes k infos) \<subseteq> set infos"
  by (induction infos arbitrary: k) (auto split: insert_outcome.splits)

lemma all_writes_succeed:
  assumes "\<forall>j < length infos. w_insert (writes (k + j)) = Stored \<and> w_update_applied (writes (k + j))"
  shows "applied_updates writes k infos = infos \<and> stored_records writes k infos = infos"
  using assms
proof (induction infos arbitrary: k)
  case Nil
  show ?case by simp
next
  case (Cons info infos)
  have head: "w_insert (writes k) = Stored \<and> w_update_applied (writes k)"
    using Cons.prems by force
  have "\<forall>j < length infos. w_insert (writes (Suc k + j)) = Stored \<and>
                             w_update_applied (writes (Suc k + j))"
  proof (intro allI impI)
    fix j assume "j < length infos"
    then have "Suc j < length (info # infos)" by simp
    then show "w_insert (writes (Suc k + j)) = Stored \<and> w_update_applied (writes (Suc k + j))"
      using Cons.prems by (metis add_Suc_shift)
  qed
  then have "applied_updates writes (Suc k) infos = infos \<and>
             stored_records writes (Suc k) infos = infos"
    by (rule Cons.IH)
  then show ?case using head by simp
qed

lemma writes_succeed_all:
  assumes "writes_succeed writes (length infos)"
  shows "applied_updates writes 0 infos = infos" and "stored_records writes 0 infos = infos"
  using all_writes_succeed[of infos writes 0] assms by (simp_all add: writes_succeed_def)

lemma escalated_row_idem: "escalated_row now d (escalated_row now d c) = escalated_row now d c"
  by (simp add: escalated_row_def)

text \<open>
  After the loop, a row is the escalated row if some iteration applied its update, and
  is unchanged otherwise; \<open>g\<close> gives the decision of each complaint in the list.
\<close>

lemma escalate_complaints_rows:
  assumes "\<forall>info \<in> set infos. snd info = g (fst info)"
  shows "rows (escalate_complaints writes now k infos db) i =
           (if i \<in> fst ` set (applied_updates writes k infos)
            then map_option (escalated_row now (g i)) (rows db i)
            else rows db i)"
  using assms
proof (induction infos arbitrary: db k)
  case Nil
  then show ?case by simp
next
  case (Cons info infos)
  have g: "snd info = g (fst info)" using Cons.prems by simp
  have IH: "rows (escalate_complaints writes now (Suc k) infos (escalate_one (writes k) now info db)) i =
           (if i \<in> fst ` set (applied_updates writes (Suc k) infos)
            then map_option (escalated_row now (g i)) (rows (escalate_one (writes k) now info db) i)
            else rows (escalate_one (writes k) now info db) i)"
    using Cons.IH Cons.prems by simp
  show ?case
  proof (cases "w_insert (writes k) = Stored \<and> w_update_applied (writes k) \<and> i = fst info")
    case True
    then show ?thesis
      using IH g by (cases "rows db i") (simp_all add: escalate_one_rows escalated_row_idem)
  next
    case False
    then have "rows (escalate_one (writes k) now info db) i = rows db i"
      by (auto simp: escalate_one_rows)
    moreover have "(i \<in> fst ` set (applied_updates writes k (info # infos))) =
                   (i \<in> fst ` set (applied_updates writes (Suc k) infos))"
      using False by auto
    ultimately show ?thesis using IH by simp
  qed
qed

subsection \<open>One check\<close>

lemma check_one_Some:
  assumes "check_one llm hours db now i = Some info"
  shows "fst info = i \<and>
         (\<exists>c deadline parsed.
            rows db i = Some c \<and> c_sla_deadline c = Some deadline \<and> deadline < now \<and>
            llm (prompt_of db i c (hours (now - deadline)) (c_urgency c)) = Parsed parsed \<and>
            ej_escalation_needed parsed \<and>
            ej_escalation_level parsed = Some (Key (d_escalation_level (snd info))) \<and>
            d_escalation_level (snd info) \<noteq> ''none'' \<and>
            d_escalation_level (snd info) \<noteq> c_escalation_level c)"
  using assms
  by (auto simp: check_one_def get_complaint_def check_complaint_status_def
        escalation_process_def escalate_with_llm_def Let_def
        split: option.splits if_splits sum.splits llm.splits key_value.splits)

lemma check_escalations_mem:
  "(info \<in> set (check_escalations llm hours db now ids)) =
     (\<exists>i \<in> set ids. check_one llm hours db now i = Some info)"
  by (auto simp: check_escalations_def List.map_filter_def image_iff)

lemma check_escalations_empty:
  assumes "\<forall>i \<in> set ids. check_one llm hours db now i = None"
  shows "check_escalations llm hours db now ids = []"
  using assms by (simp add: check_escalations_def List.map_filter_def filter_empty_conv)

lemma prompt_of_updated:
  "prompt_of db i (c\<lparr>c_updated_at := u\<rparr>) h urg = prompt_of db i c h urg"
  "prompt_of db i (escalated_row now d c) h urg = prompt_of db i c h urg"
  by (simp_all add: prompt_of_def escalated_row_def)

lemma prompt_of_count:
  "prompt_of B i c h urg =
     (prompt_of A i c h urg)\<lparr>ep_past_escalations :=
        length (filter (\<lambda>e. e_complaint_id e = i) (escalations B))\<rparr>"
  by (simp add: prompt_of_def)

lemma escalate_with_llm_ignore:
  assumes "ignores_history llm"
  shows "escalate_with_llm llm (p\<lparr>ep_past_escalations := n\<rparr>) lvl = escalate_with_llm llm p lvl"
proof -
  have "llm (p\<lparr>ep_past_escalations := n\<rparr>) = llm p"
    using assms by (simp add: ignores_history_def)
  then show ?thesis
    by (cases "llm p")
       (simp_all add: escalate_with_llm_def Let_def split: option.splits key_value.splits)
qed

lemma escalation_process_ignore:
  assumes "ignores_history llm" and "rows A i = Some cA" and "rows B i = Some cB"
    and "prompt_of A i cB h urg = prompt_of A i cA h urg"
  shows "escalation_process llm B i h urg lvl = escalation_process llm A i h urg lvl"
proof -
  have "escalate_with_llm llm (prompt_of B i cB h urg) lvl =
        escalate_with_llm llm (prompt_of A i cA h urg) lvl"
    using prompt_of_count[of B i cB h urg A] escalate_with_llm_ignore[OF assms(1)] assms(4)
    by simp
  then show ?thesis using assms(2,3) by (simp add: escalation_process_def get_complaint_def)
qed

text \<open>A row that differs in \<open>updated_at\<close> only is checked with the same result.\<close>

lemma check_one_same_store:
  assumes "rows B i = map_option (\<lambda>c. c\<lparr>c_updated_at := u\<rparr>) (rows A i)"
    and "escalations B = escalations A"
  shows "check_one llm hours B now i = check_one llm hours A now i"
  using assms
  by (cases "rows A i")
     (simp_all add: check_one_def get_complaint_def check_complaint_status_def
        escalation_process_def prompt_of_def)

lemma check_one_unchanged:
  assumes "ignores_history llm"
    and "rows B i = map_option (\<lambda>c. c\<lparr>c_updated_at := u\<rparr>) (rows A i)"
  shows "check_one llm hours B now i = check_one llm hours A now i"
proof (cases "rows A i")
  case None
  then show ?thesis using assms(2) by (simp add: check_one_def get_complaint_def)
next
  case (Some c)
  then have B: "rows B i = Some (c\<lparr>c_updated_at := u\<rparr>)" using assms(2) by simp
  have "\<And>h urg lvl. escalation_process llm B i h urg lvl = escalation_process llm A i h urg lvl"
    using escalation_process_ignore[OF assms(1) Some B] by (simp add: prompt_of_updated)
  then show ?thesis
    using Some B by (simp add: check_one_def get_complaint_def check_complaint_status_def)
qed

text \<open>
  A row that was escalated to the level the service proposes is not escalated again
  while the service proposes the same.
\<close>

lemma check_one_escalated:
  assumes "ignores_history llm"
    and "rows A i = Some c"
    and "check_one llm hours A now i = Some info"
    and "rows B i = Some ((escalated_row now' (snd info) c)\<lparr>c_updated_at := u\<rparr>)"
  shows "check_one llm hours B now i = None"
proof -
  obtain deadline parsed where d: "c_sla_deadline c = Some deadline" "deadline < now"
    and l: "llm (prompt_of A i c (hours (now - deadline)) (c_urgency c)) = Parsed parsed"
    and lv: "ej_escalation_level parsed = Some (Key (d_escalation_level (snd info)))"
    using check_one_Some[OF assms(3)] assms(2) by auto
  let ?cB = "(escalated_row now' (snd info) c)\<lparr>c_updated_at := u\<rparr>"
  have p: "prompt_of A i ?cB (hours (now - deadline)) (c_urgency c) =
           prompt_of A i c (hours (now - deadline)) (c_urgency c)"
    by (simp add: prompt_of_updated)
  have "escalation_process llm B i (hours (now - deadline)) (c_urgency c)
          (d_escalation_level (snd info)) =
        escalation_process llm A i (hours (now - deadline)) (c_urgency c)
          (d_escalation_level (snd info))"
    using escalation_process_ignore[OF assms(1,2,4) p] .
  also have "\<dots> = Inr None"
    using assms(2) l lv
    by (simp add: escalation_process_def get_complaint_def escalate_with_llm_def)
  finally show ?thesis
    using assms(4) d
    by (simp add: check_one_def get_complaint_def check_complaint_status_def escalated_row_def)
qed

subsection \<open>One cycle\<close>

lemma cycle_escalations:
  "escalations (monitoring_cycle llm hours fu writes now db) =
     escalations db @
     map (escalation_record now)
       (stored_records writes 0 (escalated_in_cycle llm hours fu now db))"
  by (simp add: monitoring_cycle_def escalate_complaints_other followup_stale_other)

lemma cycle_row_order: "row_order (monitoring_cycle llm hours fu writes now db) = row_order db"
  by (simp add: monitoring_cycle_def escalate_complaints_other followup_stale_other)

lemma check_one_after_followup:
  "check_one llm hours (followup_stale fu now db) now i = check_one llm hours db now i"
proof -
  obtain u where "rows (followup_stale fu now db) i =
      map_option (\<lambda>c. c\<lparr>c_updated_at := u\<rparr>) (rows db i)"
    using followup_stale_rows by blast
  then show ?thesis
    by (rule check_one_same_store) (simp add: followup_stale_other)
qed

lemma escalated_in_cycle_mem:
  "(info \<in> set (escalated_in_cycle llm hours fu now db)) =
     (\<exists>i \<in> set (get_complaints_breaching_sla db now @ find_stale_complaints db now).
        check_one llm hours db now i = Some info)"
  by (simp add: escalated_in_cycle_def check_escalations_mem check_one_after_followup)

text \<open>The decisions of a cycle are a function of the complaint.\<close>

lemma escalated_in_cycle_fun:
  "\<forall>info \<in> set (escalated_in_cycle llm hours fu now db).
     snd info = snd (the (check_one llm hours db now (fst info)))"
  using escalated_in_cycle_mem check_one_Some by (metis option.sel)

text \<open>The rows after a cycle.\<close>

lemma cycle_rows:
  "\<exists>u. rows (monitoring_cycle llm hours fu writes now db) i =
     (if i \<in> fst ` set (applied_updates writes 0 (escalated_in_cycle llm hours fu now db))
      then map_option (escalated_row now (snd (the (check_one llm hours db now i)))) (rows db i)
      else map_option (\<lambda>c. c\<lparr>c_updated_at := u\<rparr>) (rows db i))"
proof -
  let ?db1 = "followup_stale fu now db"
  let ?es = "escalated_in_cycle llm hours fu now db"
  let ?g = "\<lambda>j. snd (the (check_one llm hours db now j))"
  have rows2: "rows (monitoring_cycle llm hours fu writes now db) i =
      (if i \<in> fst ` set (applied_updates writes 0 ?es)
       then map_option (escalated_row now (?g i)) (rows ?db1 i)
       else rows ?db1 i)"
    unfolding monitoring_cycle_def using escalated_in_cycle_fun
    by (rule escalate_complaints_rows)
  obtain u where u: "rows ?db1 i = map_option (\<lambda>c. c\<lparr>c_updated_at := u\<rparr>) (rows db i)"
    using followup_stale_rows by blast
  have "map_option (escalated_row now (?g i)) (rows ?db1 i) =
        map_option (escalated_row now (?g i)) (rows db i)"
    unfolding u by (cases "rows db i") (simp_all add: escalated_row_def)
  then show ?thesis using rows2 u by auto
qed


subsection \<open>Two cycles at the same clock reading\<close>

lemma matching_ids_mem:
  "(i \<in> set (matching_ids db pred)) =
     (i \<in> set (row_order db) \<and> (\<exists>c. rows db i = Some c \<and> pred c))"
  by (auto simp: matching_ids_def split: option.splits)

lemma breaching_mem:
  "(i \<in> set (get_complaints_breaching_sla db now)) =
     (i \<in> set (row_order db) \<and>
      (\<exists>c. rows db i = Some c \<and> past_deadline now c \<and> c_status c \<noteq> ''resolved'' \<and>
           c_status c \<noteq> ''closed''))"
  by (simp add: get_complaints_breaching_sla_def matching_ids_mem)

lemma stale_mem:
  assumes "i \<in> set (find_stale_complaints db now)"
  shows "i \<in> set (row_order db) \<and> (\<exists>c. rows db i = Some c \<and> c_status c = ''in_progress'')"
proof -
  have "i \<in> set (get_complaints_by_status db ''in_progress'' 100)"
    using assms by (simp add: find_stale_complaints_def)
  then have "i \<in> set (matching_ids db (\<lambda>c. c_status c = ''in_progress''))"
    unfolding get_complaints_by_status_def by (rule in_set_takeD)
  then show ?thesis by (simp add: matching_ids_mem)
qed

lemma scanned_open:
  assumes "i \<in> set (get_complaints_breaching_sla db now @ find_stale_complaints db now)"
  shows "i \<in> set (row_order db) \<and>
         (\<exists>c. rows db i = Some c \<and> c_status c \<noteq> ''resolved'' \<and> c_status c \<noteq> ''closed'')"
  using assms breaching_mem[of i db now] stale_mem[of i db now] by auto

lemma check_one_breaching:
  assumes "check_one llm hours db now i = Some info"
  shows "\<exists>c. rows db i = Some c \<and> past_deadline now c"
  using check_one_Some[OF assms] by (auto simp: past_deadline_def)

lemma second_cycle_checks_nothing:
  assumes ign: "ignores_history llm"
    and ok: "writes_succeed writes (length (escalated_in_cycle llm hours fu now db))"
    and i2: "i \<in> set (get_complaints_breaching_sla (monitoring_cycle llm hours fu writes now db) now @
                     find_stale_complaints (monitoring_cycle llm hours fu writes now db) now)"
  shows "check_one llm hours (monitoring_cycle llm hours fu writes now db) now i = None"
proof -
  let ?es = "escalated_in_cycle llm hours fu now db"
  let ?db2 = "monitoring_cycle llm hours fu writes now db"
  let ?g = "\<lambda>j. snd (the (check_one llm hours db now j))"
  have all: "applied_updates writes 0 ?es = ?es"
    using ok by (rule writes_succeed_all)
  obtain u where rows2: "rows ?db2 i =
      (if i \<in> fst ` set ?es then map_option (escalated_row now (?g i)) (rows db i)
       else map_option (\<lambda>c. c\<lparr>c_updated_at := u\<rparr>) (rows db i))"
    using cycle_rows[of llm hours fu writes now db i] all by auto
  from scanned_open[OF i2] obtain c2 where ord: "i \<in> set (row_order db)"
    and c2: "rows ?db2 i = Some c2" "c_status c2 \<noteq> ''resolved''" "c_status c2 \<noteq> ''closed''"
    by (auto simp: cycle_row_order)
  show ?thesis
  proof (cases "i \<in> fst ` set ?es")
    case True
    then obtain info where info: "info \<in> set ?es" "fst info = i" by auto
    then have chk: "check_one llm hours db now i = Some info"
      using escalated_in_cycle_mem check_one_Some by metis
    then obtain c where c: "rows db i = Some c"
      using check_one_Some by blast
    have "rows ?db2 i = Some ((escalated_row now (snd info) c)\<lparr>c_updated_at := Some now\<rparr>)"
      using rows2 True c chk by (simp add: escalated_row_def)
    then show ?thesis
      using check_one_escalated[OF ign c chk] by blast
  next
    case False
    then have r: "rows ?db2 i = map_option (\<lambda>c. c\<lparr>c_updated_at := u\<rparr>) (rows db i)"
      using rows2 by simp
    have eq: "check_one llm hours ?db2 now i = check_one llm hours db now i"
      using check_one_unchanged[OF ign r] .
    show ?thesis
    proof (cases "check_one llm hours db now i")
      case None
      then show ?thesis using eq by simp
    next
      case (Some info)
      then obtain c where c: "rows db i = Some c" "past_deadline now c"
        using check_one_breaching by blast
      then have "c_status c \<noteq> ''resolved'' \<and> c_status c \<noteq> ''closed''"
        using r c2 by auto
      then have "i \<in> set (get_complaints_breaching_sla db now)"
        using ord c by (simp add: breaching_mem)
      then have "info \<in> set ?es"
        using Some escalated_in_cycle_mem by auto
      moreover have "fst info = i" using Some check_one_Some by blast
      ultimately have "i \<in> fst ` set ?es" by force
      then show ?thesis using False by simp
    qed
  qed
qed

text \<open>
  C5, amended: when the decision service's answer does not depend on the number of past
  escalations shown in its prompt, and the store's reads succeed and its writes of the
  first run succeeded (the insert of every Escalation record and the update of every
  escalated complaint), running the monitoring cycle a second time at the same clock
  reading creates no additional Escalation record, whatever the follow-ups of the two
  runs and the writes of the second run do: a complaint escalated in the first run
  carries the proposed level, and the same proposal is then a no-op.
\<close>

theorem monitoring_cycle_idempotent:
  assumes "ignores_history llm"
    and "writes_succeed writes (length (escalated_in_cycle llm hours fu now db))"
  shows "escalations (monitoring_cycle llm hours fu' writes' now
                        (monitoring_cycle llm hours fu writes now db)) =
         escalations (monitoring_cycle llm hours fu writes now db)"
proof -
  have "escalated_in_cycle llm hours fu' now (monitoring_cycle llm hours fu writes now db) = []"
    unfolding escalated_in_cycle_def
    by (rule check_escalations_empty)
       (simp add: check_one_after_followup second_cycle_checks_nothing[OF assms]
          del: set_append)
  then show ?thesis by (simp add: cycle_escalations)
qed

lemmas cycle_eval = monitoring_cycle_def escalated_in_cycle_def followup_stale_def followup_candidates_def
  get_complaints_by_status_def matching_ids_def find_stale_complaints_def get_complaints_breaching_sla_def
  past_deadline_def check_escalations_def check_one_def get_complaint_def check_complaint_status_def
  escalation_process_def escalate_with_llm_def prompt_of_def escalate_one_def create_escalation_def
  escalation_record_def update_complaint_def get_escalation_authority_def List.map_filter_def
  whole_hours_def all_written_def Let_def


lemma level_1_first_cycle:
  "escalated_in_cycle level_1_service whole_hours (\<lambda>i. False) 200 overdue_store =
     [(''c1'', \<lparr>d_escalation_level = ''level_1'',
               d_escalated_to = ''Pune Municipal Corporation (PMC) - Department Head'',
               d_reason = DefaultReason 100 ''low''\<rparr>)]"
  by (simp add: cycle_eval overdue_store_def overdue_complaint_def level_1_service_def
        indian_departments_def)

lemma all_written_succeed: "writes_succeed all_written n"
  by (simp add: writes_succeed_def all_written_def)


text \<open>
  C5, as stated, fails: the decision service below is a function of its prompt (level_1
  for a complaint with no past escalation, level_2 otherwise), and every write of the
  store succeeds. The first cycle escalates the complaint to level_1; the second cycle, at
  the same clock reading, is shown one past escalation in the prompt and creates a second
  record, at level_2.
\<close>

theorem second_cycle_escalates_counterexample:
  "map e_escalation_level
     (escalations (monitoring_cycle counting_service whole_hours (\<lambda>i. False) all_written 200
                     overdue_store)) =
     [''level_1''] \<and>
   map e_escalation_level
     (escalations (monitoring_cycle counting_service whole_hours (\<lambda>i. False) all_written 200
        (monitoring_cycle counting_service whole_hours (\<lambda>i. False) all_written 200
           overdue_store))) =
     [''level_1'', ''level_2'']"
  by (simp add: cycle_eval overdue_store_def overdue_complaint_def counting_service_def
        indian_departments_def)

text \<open>
  The condition on the first run's writes is needed: when the update of the complaint
  fails (silently, inside \<open>update_complaint\<close>) after its record was inserted, the
  complaint keeps its level, and the second cycle records the same escalation again.
\<close>

lemma failed_update_escalates_again:
  "map e_escalation_level
     (escalations (monitoring_cycle level_1_service whole_hours (\<lambda>i. False) all_written 200
        (monitoring_cycle level_1_service whole_hours (\<lambda>i. False)
           (\<lambda>k. \<lparr>w_insert = Stored, w_update_applied = False\<rparr>) 200 overdue_store))) =
     [''level_1'', ''level_1'']"
  by (simp add: cycle_eval overdue_store_def overdue_complaint_def level_1_service_def
        indian_departments_def)

lemma level_1_ignores_history: "ignores_history level_1_service"
  by (simp add: ignores_history_def level_1_service_def)

theorem monitoring_cycle_idempotent_witness:
  "ignores_history level_1_service \<and>
   writes_succeed all_written
     (length (escalated_in_cycle level_1_service whole_hours (\<lambda>i. False) 200 overdue_store)) \<and>
   map e_escalation_level
     (escalations (monitoring_cycle level_1_service whole_hours (\<lambda>i. False) all_written 200
                     overdue_store)) =
     [''level_1''] \<and>
   escalations (monitoring_cycle level_1_service whole_hours (\<lambda>i. False) all_written 200
      (monitoring_cycle level_1_service whole_hours (\<lambda>i. False) all_written 200 overdue_store)) =
   escalations (monitoring_cycle level_1_service whole_hours (\<lambda>i. False) all_written 200
                  overdue_store)"
proof -
  have "map e_escalation_level
     (escalations (monitoring_cycle level_1_service whole_hours (\<lambda>i. False) all_written 200
                     overdue_store)) =
     [''level_1'']"
    by (simp add: cycle_escalations level_1_first_cycle escalation_record_def all_written_def)
       (simp add: overdue_store_def)
  then show ?thesis
    using level_1_ignores_history all_written_succeed
      monitoring_cycle_idempotent[where llm = level_1_service and writes = all_written
        and hours = whole_hours and fu = "\<lambda>i. False" and now = 200 and db = overdue_store
        and fu' = "\<lambda>i. False" and writes' = all_written,
        OF level_1_ignores_history all_written_succeed]
    by simp
qed

end
